theory Spec2Isabelle
  imports Main "HOL-Library.Word" "HOL-Library.Monad_Syntax"
begin

section \<open>The northbound callbacks of ripd (ripd/rip_northbound.c)\<close>

text \<open>
  The file under verification holds the configuration, state and rpc callbacks that ripd
  registers with the northbound layer, and the table \<open>frr_ripd_info\<close> that registers them.
  Each configuration callback is called with an event, a configuration node and (for create
  and modify) a resource slot; it reads and writes the daemon's global state.

  The embedding threads that state explicitly.  A callback returns \<open>None\<close> where the C
  code would dereference a null or dangling pointer or reach \<open>abort()\<close>.
\<close>

subsection \<open>Types of the northbound layer\<close>

text \<open>\<open>enum nb_event\<close>: the four members are the cases of the switch in
  \<open>ripd_instance_create\<close>.\<close>

datatype nb_event = NB_EV_VALIDATE | NB_EV_PREPARE | NB_EV_ABORT | NB_EV_APPLY

text \<open>\<open>enum nb_error\<close> is declared in lib/northbound.h.  The callbacks are declared to
  return \<open>int\<close>; the values they return are members of this enumeration, also where they
  pass on the result of a routine of the routing engine.\<close>

datatype nb_error =
    NB_OK
  | NB_ERR
  | NB_ERR_NO_CHANGES
  | NB_ERR_NOT_FOUND
  | NB_ERR_LOCKED
  | NB_ERR_VALIDATION
  | NB_ERR_RESOURCE
  | NB_ERR_INCONSISTENCY

text \<open>\<open>union nb_resource\<close>, read through its member \<open>fd\<close>, the only one this file uses.
  The slot belongs to one change; its content before PREPARE is whatever the caller left
  there.\<close>

record nb_resource =
  fd :: int

type_synonym addr = nat

datatype sa_family = AF_UNSPEC | AF_INET

record prefix_ipv4 =
  family :: sa_family
  prefixlen :: "8 word"
  prefix :: "32 word"

definition IPV4_MAX_BITLEN :: "8 word" where
  "IPV4_MAX_BITLEN = 32"

datatype nexthop_type = NEXTHOP_TYPE_UNSET | NEXTHOP_TYPE_IPV4

record nexthop =
  nh_type :: nexthop_type
  nh_gate :: "32 word"

text \<open>\<open>memset(&nh, 0, sizeof(nh))\<close> and \<open>memset(&p, 0, sizeof(struct prefix_ipv4))\<close>.\<close>

definition nexthop_zero :: nexthop where
  "nexthop_zero = \<lparr>nh_type = NEXTHOP_TYPE_UNSET, nh_gate = 0\<rparr>"

definition prefix_zero :: prefix_ipv4 where
  "prefix_zero = \<lparr>family = AF_UNSPEC, prefixlen = 0, prefix = 0\<rparr>"

text \<open>
  A configuration node \<open>const struct lyd_node *dnode\<close>.  The node is owned by the
  northbound layer; the callbacks only read it, through the \<open>yang_dnode_get_*\<close> accessors,
  which take the node and a relative XPath (\<open>None\<close> for the C \<open>NULL\<close>: the node's own
  value).  \<open>dn_id\<close> is the identity of the node and \<open>dn_parents\<close> the identities of its
  ancestors, nearest first (the chain of \<open>dnode->parent\<close>).
\<close>

record lyd_node =
  dn_id :: nat
  dn_parents :: "nat list"
  yang_dnode_get_bool :: "string option \<Rightarrow> bool"
  yang_dnode_get_uint8 :: "string option \<Rightarrow> 8 word"
  yang_dnode_get_uint32 :: "string option \<Rightarrow> 32 word"
  yang_dnode_get_string :: "string option \<Rightarrow> string"
  yang_dnode_get_enum :: "string option \<Rightarrow> int"
  yang_dnode_get_ipv4 :: "string option \<Rightarrow> 32 word"
  yang_dnode_get_ipv4p :: "string option \<Rightarrow> prefix_ipv4"

subsection \<open>The state of the daemon\<close>

text \<open>One element of \<open>rip->route_map[]\<close>.\<close>

record route_map_conf =
  rm_name :: "addr option"
  rm_map :: "addr option"
  metric_config :: bool
  rm_metric :: "32 word"

text \<open>\<open>struct rip\<close>, restricted to the members this file assigns.  The array
  \<open>route_map\<close> is indexed by the route type read from the node.\<close>

record rip_instance =
  ecmp :: bool
  default_metric :: "8 word"
  distance :: "8 word"
  passive_default :: bool
  route_map :: "int \<Rightarrow> route_map_conf"
  garbage_time :: "32 word"
  timeout_time :: "32 word"
  update_time :: "32 word"

record rip_distance =
  rd_distance :: "8 word"
  access_list :: "addr option"

record rip_offset_direct =
  alist_name :: "addr option"
  metric :: "8 word"

text \<open>\<open>struct rip_offset_list\<close>; \<open>direct\<close> is the array of the two directions.\<close>

record rip_offset_list =
  ifname :: string
  direct :: "int \<Rightarrow> rip_offset_direct"

definition RIP_OFFSET_LIST_IN :: int where
  "RIP_OFFSET_LIST_IN = 0"

definition RIP_OFFSET_LIST_OUT :: int where
  "RIP_OFFSET_LIST_OUT = 1"

record route_node =
  rn_p :: prefix_ipv4
  info :: "addr option"
  lock :: nat

text \<open>
  The daemon: the global pointer \<open>rip\<close> (\<open>None\<close> while there is no instance), the table
  \<open>rip_distance_table\<close>, the heap objects the callbacks reach through pointers (each kind
  in a store of its own, all addresses drawn from the one counter \<open>brk\<close>), the log
  \<open>freed\<close> of every address released, the open descriptors, the pending update timer,
  the route types whose redistribution is requested, and \<open>engine\<close>, the rest of the
  routing engine, which only its own routines touch.

  Modelled from the spec: the neighbours and routes of the daemon are kept by ripd/rip_peer.c
  and ripd/ripd.c, which are not among the sources.  The spec (3) has one operational entry per
  "row" of a read-only list, "one known neighbor, one learned route": \<open>known_neighbors\<close>
  and \<open>learned_routes\<close> are the live entries of the two lists, by the address of their
  record.  No callback of this file reads or writes them.
\<close>

record 'e ripd =
  rip :: "rip_instance option"
  rip_distance_table :: "prefix_ipv4 \<rightharpoonup> addr"
  route_nodes :: "addr \<rightharpoonup> route_node"
  distances :: "addr \<rightharpoonup> rip_distance"
  offset_lists :: "addr \<rightharpoonup> rip_offset_list"
  strings :: "addr \<rightharpoonup> string"
  brk :: addr
  freed :: "addr list"
  open_fds :: "int set"
  t_update :: "(int \<times> 32 word) option"
  redist :: "int set"
  known_neighbors :: "addr list"
  learned_routes :: "addr list"
  engine :: 'e

text \<open>
  What a callback sees: the private pointers of the configuration nodes (\<open>dnode->priv\<close>,
  by node identity), kept by the northbound layer, and the daemon.  The routines of the routing
  engine receive no configuration node, so they are typed over the daemon alone.
\<close>

record 'e world =
  priv :: "nat \<rightharpoonup> addr"
  ripd :: "'e ripd"

type_synonym 'e cfg_cb =
  "nb_event \<Rightarrow> lyd_node \<Rightarrow> nb_resource \<Rightarrow> 'e world \<Rightarrow> (nb_error \<times> nb_resource \<times> 'e world) option"

type_synonym 'e del_cb =
  "nb_event \<Rightarrow> lyd_node \<Rightarrow> 'e world \<Rightarrow> (nb_error \<times> 'e world) option"

type_synonym 'e fin_cb =
  "lyd_node \<Rightarrow> 'e world \<Rightarrow> 'e world option"

subsection \<open>Routines of the routing engine, taken as parameters\<close>

text \<open>
  These routines are defined in other files of ripd (ripd.c, rip_interface.c, rip_zebra.c)
  and in lib/routemap.c.  Nothing is assumed about them: every callback takes the record of
  them as its first argument.  Routines that return \<open>int\<close> return the pair of the result and
  the new state.
\<close>

datatype zebra_route_type = ZEBRA_ROUTE_RIP

datatype rip_sub_type = RIP_ROUTE_STATIC | RIP_ROUTE_DEFAULT

record 'e helpers =
  rip_create_socket :: "'e ripd \<Rightarrow> int \<times> 'e ripd"
  rip_create :: "int \<Rightarrow> 'e ripd \<Rightarrow> 'e ripd"
  rip_clean :: "'e ripd \<Rightarrow> 'e ripd"
  rip_ecmp_disable :: "'e ripd \<Rightarrow> 'e ripd"
  rip_redistribute_add ::
    "zebra_route_type \<Rightarrow> rip_sub_type \<Rightarrow> prefix_ipv4 \<Rightarrow> nexthop \<Rightarrow> nat \<Rightarrow> 8 word \<Rightarrow> nat
      \<Rightarrow> 'e ripd \<Rightarrow> 'e ripd"
  rip_redistribute_delete ::
    "zebra_route_type \<Rightarrow> rip_sub_type \<Rightarrow> prefix_ipv4 \<Rightarrow> nat \<Rightarrow> 'e ripd \<Rightarrow> 'e ripd"
  rip_neighbor_add :: "prefix_ipv4 \<Rightarrow> 'e ripd \<Rightarrow> nb_error \<times> 'e ripd"
  rip_neighbor_delete :: "prefix_ipv4 \<Rightarrow> 'e ripd \<Rightarrow> nb_error \<times> 'e ripd"
  rip_enable_network_add :: "prefix_ipv4 \<Rightarrow> 'e ripd \<Rightarrow> nb_error \<times> 'e ripd"
  rip_enable_network_delete :: "prefix_ipv4 \<Rightarrow> 'e ripd \<Rightarrow> nb_error \<times> 'e ripd"
  rip_enable_if_add :: "string \<Rightarrow> 'e ripd \<Rightarrow> nb_error \<times> 'e ripd"
  rip_enable_if_delete :: "string \<Rightarrow> 'e ripd \<Rightarrow> nb_error \<times> 'e ripd"
  rip_passive_nondefault_set :: "string \<Rightarrow> 'e ripd \<Rightarrow> nb_error \<times> 'e ripd"
  rip_passive_nondefault_unset :: "string \<Rightarrow> 'e ripd \<Rightarrow> nb_error \<times> 'e ripd"
  rip_passive_nondefault_clean :: "'e ripd \<Rightarrow> 'e ripd"
  route_map_lookup_by_name :: "string \<Rightarrow> 'e ripd \<Rightarrow> addr option"

subsection \<open>Library routines the callbacks call\<close>

text \<open>
  \<open>close\<close>, \<open>free\<close> and \<open>strdup\<close> of the C library.  \<open>close\<close> on a descriptor that is not
  open changes nothing.  \<open>free\<close> of the null pointer does nothing; every other call is
  logged, so that a second release of one address shows in \<open>freed\<close>.  \<open>strdup\<close> returns the
  address of a new string; addresses are not reused.
\<close>

definition close :: "int \<Rightarrow> 'e ripd \<Rightarrow> 'e ripd" where
  "close s d = d\<lparr>open_fds := open_fds d - {s}\<rparr>"

definition free :: "addr option \<Rightarrow> 'e ripd \<Rightarrow> 'e ripd" where
  "free p d =
     (case p of
        None \<Rightarrow> d
      | Some a \<Rightarrow> d\<lparr>strings := (strings d)(a := None), freed := freed d @ [a]\<rparr>)"

definition strdup :: "string \<Rightarrow> 'e ripd \<Rightarrow> addr \<times> 'e ripd" where
  "strdup s d = (brk d, d\<lparr>strings := (strings d)(brk d \<mapsto> s), brk := Suc (brk d)\<rparr>)"

text \<open>
  Modelled from the spec: \<open>yang_dnode_set_entry\<close> and \<open>yang_dnode_get_entry\<close> are defined in
  lib/yang.c, which is not among the sources.  The spec (4.2): "bind(node, object) records
  the binding; fails (programmer error, fatal) if node already bound", and "resolve(node)
  walks to the nearest bound ancestor and returns its object; fails if none exists".  The walk
  starts at the node itself, since the delete callbacks resolve the entry of the list node
  they are called on.
\<close>

definition yang_dnode_set_entry :: "lyd_node \<Rightarrow> addr \<Rightarrow> 'e world \<Rightarrow> 'e world option" where
  "yang_dnode_set_entry dnode entry w =
     (case priv w (dn_id dnode) of
        Some _ \<Rightarrow> None
      | None \<Rightarrow> Some (w\<lparr>priv := (priv w)(dn_id dnode \<mapsto> entry)\<rparr>))"

fun nearest_entry :: "(nat \<rightharpoonup> addr) \<Rightarrow> nat list \<Rightarrow> addr option" where
  "nearest_entry pr [] = None"
| "nearest_entry pr (n # ns) =
     (case pr n of Some e \<Rightarrow> Some e | None \<Rightarrow> nearest_entry pr ns)"

definition yang_dnode_get_entry :: "lyd_node \<Rightarrow> 'e world \<Rightarrow> addr option" where
  "yang_dnode_get_entry dnode w = nearest_entry (priv w) (dn_id dnode # dn_parents dnode)"

text \<open>
  Modelled from the spec: \<open>route_node_get\<close> and \<open>route_unlock_node\<close> are defined in
  lib/table.c, \<open>rip_distance_new\<close> and \<open>rip_distance_free\<close> in ripd/ripd.c; none is among the
  sources.  The spec (3) has the distance override as "a distance-override record keyed by
  prefix", a runtime object "created/destroyed by Change Handlers".  \<open>route_node_get\<close>
  returns the node of the prefix with one more lock, making the node (no \<open>info\<close>, one lock)
  when the table has none; \<open>route_unlock_node\<close> drops one lock and releases a node that has
  no lock and no \<open>info\<close> left.  \<open>rip_distance_new\<close> returns a new zeroed record, and
  \<open>rip_distance_free\<close> releases the record it is given.
\<close>

definition route_node_get :: "prefix_ipv4 \<Rightarrow> 'e ripd \<Rightarrow> (addr \<times> 'e ripd) option" where
  "route_node_get p d =
     (case rip_distance_table d p of
        None \<Rightarrow>
          Some (brk d,
            d\<lparr>rip_distance_table := (rip_distance_table d)(p \<mapsto> brk d),
              route_nodes := (route_nodes d)(brk d \<mapsto> \<lparr>rn_p = p, info = None, lock = 1\<rparr>),
              brk := Suc (brk d)\<rparr>)
      | Some a \<Rightarrow>
          (case route_nodes d a of
             None \<Rightarrow> None
           | Some rn \<Rightarrow> Some (a, d\<lparr>route_nodes := (route_nodes d)(a \<mapsto> rn\<lparr>lock := Suc (lock rn)\<rparr>)\<rparr>)))"

definition route_unlock_node :: "addr \<Rightarrow> 'e ripd \<Rightarrow> 'e ripd option" where
  "route_unlock_node a d =
     (case route_nodes d a of
        None \<Rightarrow> None
      | Some rn \<Rightarrow>
          if lock rn = 0 then None
          else if lock rn = 1 \<and> info rn = None then
            Some (d\<lparr>rip_distance_table := (rip_distance_table d)(rn_p rn := None),
                    route_nodes := (route_nodes d)(a := None),
                    freed := freed d @ [a]\<rparr>)
          else Some (d\<lparr>route_nodes := (route_nodes d)(a \<mapsto> rn\<lparr>lock := lock rn - 1\<rparr>)\<rparr>))"

definition rip_distance_new :: "'e ripd \<Rightarrow> addr \<times> 'e ripd" where
  "rip_distance_new d =
     (brk d,
      d\<lparr>distances := (distances d)(brk d \<mapsto> \<lparr>rd_distance = 0, access_list = None\<rparr>),
        brk := Suc (brk d)\<rparr>)"

definition rip_distance_free :: "addr \<Rightarrow> 'e ripd \<Rightarrow> 'e ripd" where
  "rip_distance_free a d = d\<lparr>distances := (distances d)(a := None), freed := freed d @ [a]\<rparr>"

text \<open>
  Modelled from the spec: \<open>rip_offset_list_new\<close> and \<open>offset_list_del\<close> are defined in
  ripd/rip_offset.c, which is not among the sources.  The spec (3, 8) has the offset list as
  "an offset-list record keyed by interface+direction", a shared record with the two
  sub-states "in" and "out", and "deleting both frees the shared record".
  \<open>rip_offset_list_new\<close> returns a new record for the interface with both directions unset;
  \<open>offset_list_del\<close> releases the record.
\<close>

definition rip_offset_list_new :: "string \<Rightarrow> 'e ripd \<Rightarrow> addr \<times> 'e ripd" where
  "rip_offset_list_new name d =
     (brk d,
      d\<lparr>offset_lists := (offset_lists d)(brk d \<mapsto>
           \<lparr>ifname = name, direct = (\<lambda>_. \<lparr>alist_name = None, metric = 0\<rparr>)\<rparr>),
        brk := Suc (brk d)\<rparr>)"

definition offset_list_del :: "addr \<Rightarrow> 'e ripd \<Rightarrow> 'e ripd" where
  "offset_list_del a d =
     d\<lparr>offset_lists := (offset_lists d)(a := None), freed := freed d @ [a]\<rparr>"

text \<open>
  Modelled from the spec: \<open>rip_event\<close> is defined in ripd/ripd.c and
  \<open>rip_redistribute_conf_update\<close>, \<open>rip_redistribute_conf_delete\<close> in ripd/rip_zebra.c; none
  is among the sources.  The spec (6) names the operations of the routing engine: "re-arm
  periodic update timer" and "set/clear redistribution for protocol P with optional route-map
  and metric".  Re-arming replaces the pending update timer by one armed from the instance's
  update interval (so it needs the instance); the model has no clock, a pending timer is the
  delay argument and the interval it was armed with.  Setting and clearing redistribution add
  the route type to, and remove it from, the types requested.
\<close>

datatype rip_event_type = RIP_UPDATE_EVENT

definition rip_event :: "rip_event_type \<Rightarrow> int \<Rightarrow> 'e ripd \<Rightarrow> 'e ripd option" where
  "rip_event ev sec d =
     (case rip d of
        None \<Rightarrow> None
      | Some r \<Rightarrow> Some (d\<lparr>t_update := Some (sec, update_time r)\<rparr>))"

definition rip_redistribute_conf_update :: "int \<Rightarrow> 'e ripd \<Rightarrow> 'e ripd" where
  "rip_redistribute_conf_update type d = d\<lparr>redist := insert type (redist d)\<rparr>"

definition rip_redistribute_conf_delete :: "int \<Rightarrow> 'e ripd \<Rightarrow> 'e ripd" where
  "rip_redistribute_conf_delete type d = d\<lparr>redist := redist d - {type}\<rparr>"


section \<open>Configuration callbacks\<close>

subsection \<open>XPath: /frr-ripd:ripd/instance\<close>

definition ripd_instance_create :: "'e helpers \<Rightarrow> 'e cfg_cb" where
  "ripd_instance_create h event dnode resource w =
     (case event of
        NB_EV_VALIDATE \<Rightarrow> Some (NB_OK, resource, w)
      | NB_EV_PREPARE \<Rightarrow>
          (let (socket, d) = rip_create_socket h (ripd w) in
           if socket < 0 then Some (NB_ERR_RESOURCE, resource, w\<lparr>ripd := d\<rparr>)
           else Some (NB_OK, resource\<lparr>fd := socket\<rparr>, w\<lparr>ripd := d\<rparr>))
      | NB_EV_ABORT \<Rightarrow>
          (let socket = fd resource in
           Some (NB_OK, resource, w\<lparr>ripd := close socket (ripd w)\<rparr>))
      | NB_EV_APPLY \<Rightarrow>
          (let socket = fd resource in
           Some (NB_OK, resource, w\<lparr>ripd := rip_create h socket (ripd w)\<rparr>)))"

definition ripd_instance_delete :: "'e helpers \<Rightarrow> 'e del_cb" where
  "ripd_instance_delete h event dnode w =
     (if event \<noteq> NB_EV_APPLY then Some (NB_OK, w)
      else Some (NB_OK, w\<lparr>ripd := rip_clean h (ripd w)\<rparr>))"

subsection \<open>XPath: /frr-ripd:ripd/instance/allow-ecmp\<close>

definition ripd_instance_allow_ecmp_modify :: "'e helpers \<Rightarrow> 'e cfg_cb" where
  "ripd_instance_allow_ecmp_modify h event dnode resource w =
     (if event \<noteq> NB_EV_APPLY then Some (NB_OK, resource, w)
      else do {
        r \<leftarrow> rip (ripd w);
        let r' = r\<lparr>ecmp := yang_dnode_get_bool dnode None\<rparr>;
        let d = (ripd w)\<lparr>rip := Some r'\<rparr>;
        let d' = (if \<not> ecmp r' then rip_ecmp_disable h d else d);
        Some (NB_OK, resource, w\<lparr>ripd := d'\<rparr>)
      })"

subsection \<open>XPath: /frr-ripd:ripd/instance/default-information-originate\<close>

definition ripd_instance_default_information_originate_modify :: "'e helpers \<Rightarrow> 'e cfg_cb" where
  "ripd_instance_default_information_originate_modify h event dnode resource w =
     (if event \<noteq> NB_EV_APPLY then Some (NB_OK, resource, w)
      else
        let default_information = yang_dnode_get_bool dnode None;
            p = prefix_zero\<lparr>family := AF_INET\<rparr>
        in if default_information then
             let nh = nexthop_zero\<lparr>nh_type := NEXTHOP_TYPE_IPV4\<rparr> in
             Some (NB_OK, resource,
               w\<lparr>ripd := rip_redistribute_add h ZEBRA_ROUTE_RIP RIP_ROUTE_DEFAULT p nh 0 0 0 (ripd w)\<rparr>)
           else
             Some (NB_OK, resource,
               w\<lparr>ripd := rip_redistribute_delete h ZEBRA_ROUTE_RIP RIP_ROUTE_DEFAULT p 0 (ripd w)\<rparr>))"

subsection \<open>XPath: /frr-ripd:ripd/instance/default-metric\<close>

definition ripd_instance_default_metric_modify :: "'e helpers \<Rightarrow> 'e cfg_cb" where
  "ripd_instance_default_metric_modify h event dnode resource w =
     (if event \<noteq> NB_EV_APPLY then Some (NB_OK, resource, w)
      else do {
        r \<leftarrow> rip (ripd w);
        let r' = r\<lparr>default_metric := yang_dnode_get_uint8 dnode None\<rparr>;
        Some (NB_OK, resource, w\<lparr>ripd := (ripd w)\<lparr>rip := Some r'\<rparr>\<rparr>)
      })"

subsection \<open>XPath: /frr-ripd:ripd/instance/distance/default\<close>

definition ripd_instance_distance_default_modify :: "'e helpers \<Rightarrow> 'e cfg_cb" where
  "ripd_instance_distance_default_modify h event dnode resource w =
     (if event \<noteq> NB_EV_APPLY then Some (NB_OK, resource, w)
      else do {
        r \<leftarrow> rip (ripd w);
        let r' = r\<lparr>distance := yang_dnode_get_uint8 dnode None\<rparr>;
        Some (NB_OK, resource, w\<lparr>ripd := (ripd w)\<lparr>rip := Some r'\<rparr>\<rparr>)
      })"

subsection \<open>XPath: /frr-ripd:ripd/instance/distance/source\<close>

definition ripd_instance_distance_source_create :: "'e helpers \<Rightarrow> 'e cfg_cb" where
  "ripd_instance_distance_source_create h event dnode resource w =
     (if event \<noteq> NB_EV_APPLY then Some (NB_OK, resource, w)
      else do {
        let prefix = yang_dnode_get_ipv4p dnode (Some ''./prefix'');
        (rn, d1) \<leftarrow> route_node_get prefix (ripd w);
        let (rdistance, d2) = rip_distance_new d1;
        node \<leftarrow> route_nodes d2 rn;
        let d3 = d2\<lparr>route_nodes := (route_nodes d2)(rn \<mapsto> node\<lparr>info := Some rdistance\<rparr>)\<rparr>;
        w' \<leftarrow> yang_dnode_set_entry dnode rn (w\<lparr>ripd := d3\<rparr>);
        Some (NB_OK, resource, w')
      })"

definition ripd_instance_distance_source_delete :: "'e helpers \<Rightarrow> 'e del_cb" where
  "ripd_instance_distance_source_delete h event dnode w =
     (if event \<noteq> NB_EV_APPLY then Some (NB_OK, w)
      else do {
        rn \<leftarrow> yang_dnode_get_entry dnode w;
        node \<leftarrow> route_nodes (ripd w) rn;
        rdistance \<leftarrow> info node;
        rd \<leftarrow> distances (ripd w) rdistance;
        let d1 = (if access_list rd \<noteq> None then free (access_list rd) (ripd w) else ripd w);
        let d2 = rip_distance_free rdistance d1;
        node' \<leftarrow> route_nodes d2 rn;
        let d3 = d2\<lparr>route_nodes := (route_nodes d2)(rn \<mapsto> node'\<lparr>info := None\<rparr>)\<rparr>;
        d4 \<leftarrow> route_unlock_node rn d3;
        Some (NB_OK, w\<lparr>ripd := d4\<rparr>)
      })"

subsection \<open>XPath: /frr-ripd:ripd/instance/distance/source/distance\<close>

definition ripd_instance_distance_source_distance_modify :: "'e helpers \<Rightarrow> 'e cfg_cb" where
  "ripd_instance_distance_source_distance_modify h event dnode resource w =
     (if event \<noteq> NB_EV_APPLY then Some (NB_OK, resource, w)
      else do {
        rn \<leftarrow> yang_dnode_get_entry dnode w;
        let distance = yang_dnode_get_uint8 dnode None;
        node \<leftarrow> route_nodes (ripd w) rn;
        rdistance \<leftarrow> info node;
        rd \<leftarrow> distances (ripd w) rdistance;
        let d1 = (ripd w)\<lparr>distances := (distances (ripd w))(rdistance \<mapsto> rd\<lparr>rd_distance := distance\<rparr>)\<rparr>;
        Some (NB_OK, resource, w\<lparr>ripd := d1\<rparr>)
      })"

subsection \<open>XPath: /frr-ripd:ripd/instance/distance/source/access-list\<close>

definition ripd_instance_distance_source_access_list_modify :: "'e helpers \<Rightarrow> 'e cfg_cb" where
  "ripd_instance_distance_source_access_list_modify h event dnode resource w =
     (if event \<noteq> NB_EV_APPLY then Some (NB_OK, resource, w)
      else do {
        let acl_name = yang_dnode_get_string dnode None;
        rn \<leftarrow> yang_dnode_get_entry dnode w;
        node \<leftarrow> route_nodes (ripd w) rn;
        rdistance \<leftarrow> info node;
        rd \<leftarrow> distances (ripd w) rdistance;
        let d1 = (if access_list rd \<noteq> None then free (access_list rd) (ripd w) else ripd w);
        let (s, d2) = strdup acl_name d1;
        rd' \<leftarrow> distances d2 rdistance;
        let d3 = d2\<lparr>distances := (distances d2)(rdistance \<mapsto> rd'\<lparr>access_list := Some s\<rparr>)\<rparr>;
        Some (NB_OK, resource, w\<lparr>ripd := d3\<rparr>)
      })"

definition ripd_instance_distance_source_access_list_delete :: "'e helpers \<Rightarrow> 'e del_cb" where
  "ripd_instance_distance_source_access_list_delete h event dnode w =
     (if event \<noteq> NB_EV_APPLY then Some (NB_OK, w)
      else do {
        rn \<leftarrow> yang_dnode_get_entry dnode w;
        node \<leftarrow> route_nodes (ripd w) rn;
        rdistance \<leftarrow> info node;
        rd \<leftarrow> distances (ripd w) rdistance;
        let d1 = free (access_list rd) (ripd w);
        rd' \<leftarrow> distances d1 rdistance;
        let d2 = d1\<lparr>distances := (distances d1)(rdistance \<mapsto> rd'\<lparr>access_list := None\<rparr>)\<rparr>;
        Some (NB_OK, w\<lparr>ripd := d2\<rparr>)
      })"


subsection \<open>XPath: /frr-ripd:ripd/instance/explicit-neighbor\<close>

definition ripd_instance_explicit_neighbor_create :: "'e helpers \<Rightarrow> 'e cfg_cb" where
  "ripd_instance_explicit_neighbor_create h event dnode resource w =
     (if event \<noteq> NB_EV_APPLY then Some (NB_OK, resource, w)
      else
        let p = \<lparr>family = AF_INET, prefixlen = IPV4_MAX_BITLEN,
                 prefix = yang_dnode_get_ipv4 dnode None\<rparr>;
            (ret, d) = rip_neighbor_add h p (ripd w)
        in Some (ret, resource, w\<lparr>ripd := d\<rparr>))"

definition ripd_instance_explicit_neighbor_delete :: "'e helpers \<Rightarrow> 'e del_cb" where
  "ripd_instance_explicit_neighbor_delete h event dnode w =
     (if event \<noteq> NB_EV_APPLY then Some (NB_OK, w)
      else
        let p = \<lparr>family = AF_INET, prefixlen = IPV4_MAX_BITLEN,
                 prefix = yang_dnode_get_ipv4 dnode None\<rparr>;
            (ret, d) = rip_neighbor_delete h p (ripd w)
        in Some (ret, w\<lparr>ripd := d\<rparr>))"

subsection \<open>XPath: /frr-ripd:ripd/instance/network\<close>

definition ripd_instance_network_create :: "'e helpers \<Rightarrow> 'e cfg_cb" where
  "ripd_instance_network_create h event dnode resource w =
     (if event \<noteq> NB_EV_APPLY then Some (NB_OK, resource, w)
      else
        let p = yang_dnode_get_ipv4p dnode None;
            (ret, d) = rip_enable_network_add h p (ripd w)
        in Some (ret, resource, w\<lparr>ripd := d\<rparr>))"

definition ripd_instance_network_delete :: "'e helpers \<Rightarrow> 'e del_cb" where
  "ripd_instance_network_delete h event dnode w =
     (if event \<noteq> NB_EV_APPLY then Some (NB_OK, w)
      else
        let p = yang_dnode_get_ipv4p dnode None;
            (ret, d) = rip_enable_network_delete h p (ripd w)
        in Some (ret, w\<lparr>ripd := d\<rparr>))"

subsection \<open>XPath: /frr-ripd:ripd/instance/interface\<close>

definition ripd_instance_interface_create :: "'e helpers \<Rightarrow> 'e cfg_cb" where
  "ripd_instance_interface_create h event dnode resource w =
     (if event \<noteq> NB_EV_APPLY then Some (NB_OK, resource, w)
      else
        let name = yang_dnode_get_string dnode None;
            (ret, d) = rip_enable_if_add h name (ripd w)
        in Some (ret, resource, w\<lparr>ripd := d\<rparr>))"

definition ripd_instance_interface_delete :: "'e helpers \<Rightarrow> 'e del_cb" where
  "ripd_instance_interface_delete h event dnode w =
     (if event \<noteq> NB_EV_APPLY then Some (NB_OK, w)
      else
        let name = yang_dnode_get_string dnode None;
            (ret, d) = rip_enable_if_delete h name (ripd w)
        in Some (ret, w\<lparr>ripd := d\<rparr>))"

subsection \<open>XPath: /frr-ripd:ripd/instance/offset-list\<close>

definition ripd_instance_offset_list_create :: "'e helpers \<Rightarrow> 'e cfg_cb" where
  "ripd_instance_offset_list_create h event dnode resource w =
     (if event \<noteq> NB_EV_APPLY then Some (NB_OK, resource, w)
      else do {
        let name = yang_dnode_get_string dnode (Some ''./interface'');
        let (offset, d) = rip_offset_list_new name (ripd w);
        w' \<leftarrow> yang_dnode_set_entry dnode offset (w\<lparr>ripd := d\<rparr>);
        Some (NB_OK, resource, w')
      })"

definition ripd_instance_offset_list_delete :: "'e helpers \<Rightarrow> 'e del_cb" where
  "ripd_instance_offset_list_delete h event dnode w =
     (if event \<noteq> NB_EV_APPLY then Some (NB_OK, w)
      else do {
        let direct' = yang_dnode_get_enum dnode (Some ''./direction'');
        offset \<leftarrow> yang_dnode_get_entry dnode w;
        ol \<leftarrow> offset_lists (ripd w) offset;
        let d1 =
          (if alist_name (direct ol direct') \<noteq> None then
             (free (alist_name (direct ol direct')) (ripd w))
               \<lparr>offset_lists := (offset_lists (ripd w))(offset \<mapsto>
                  ol\<lparr>direct := (direct ol)(direct' := (direct ol direct')\<lparr>alist_name := None\<rparr>)\<rparr>)\<rparr>
           else ripd w);
        ol' \<leftarrow> offset_lists d1 offset;
        let d2 =
          (if alist_name (direct ol' RIP_OFFSET_LIST_IN) = None
              \<and> alist_name (direct ol' RIP_OFFSET_LIST_OUT) = None
           then offset_list_del offset d1 else d1);
        Some (NB_OK, w\<lparr>ripd := d2\<rparr>)
      })"

subsection \<open>XPath: /frr-ripd:ripd/instance/offset-list/access-list\<close>

definition ripd_instance_offset_list_access_list_modify :: "'e helpers \<Rightarrow> 'e cfg_cb" where
  "ripd_instance_offset_list_access_list_modify h event dnode resource w =
     (if event \<noteq> NB_EV_APPLY then Some (NB_OK, resource, w)
      else do {
        let direct' = yang_dnode_get_enum dnode (Some ''../direction'');
        let alist = yang_dnode_get_string dnode None;
        offset \<leftarrow> yang_dnode_get_entry dnode w;
        ol \<leftarrow> offset_lists (ripd w) offset;
        let d1 = (if alist_name (direct ol direct') \<noteq> None
                  then free (alist_name (direct ol direct')) (ripd w) else ripd w);
        let (s, d2) = strdup alist d1;
        ol' \<leftarrow> offset_lists d2 offset;
        let d3 = d2\<lparr>offset_lists := (offset_lists d2)(offset \<mapsto>
                   ol'\<lparr>direct := (direct ol')(direct' := (direct ol' direct')\<lparr>alist_name := Some s\<rparr>)\<rparr>)\<rparr>;
        Some (NB_OK, resource, w\<lparr>ripd := d3\<rparr>)
      })"

subsection \<open>XPath: /frr-ripd:ripd/instance/offset-list/metric\<close>

definition ripd_instance_offset_list_metric_modify :: "'e helpers \<Rightarrow> 'e cfg_cb" where
  "ripd_instance_offset_list_metric_modify h event dnode resource w =
     (if event \<noteq> NB_EV_APPLY then Some (NB_OK, resource, w)
      else do {
        let direct' = yang_dnode_get_enum dnode (Some ''../direction'');
        let metric' = yang_dnode_get_uint8 dnode None;
        offset \<leftarrow> yang_dnode_get_entry dnode w;
        ol \<leftarrow> offset_lists (ripd w) offset;
        let d1 = (ripd w)\<lparr>offset_lists := (offset_lists (ripd w))(offset \<mapsto>
                   ol\<lparr>direct := (direct ol)(direct' := (direct ol direct')\<lparr>metric := metric'\<rparr>)\<rparr>)\<rparr>;
        Some (NB_OK, resource, w\<lparr>ripd := d1\<rparr>)
      })"

subsection \<open>XPath: /frr-ripd:ripd/instance/passive-default\<close>

definition ripd_instance_passive_default_modify :: "'e helpers \<Rightarrow> 'e cfg_cb" where
  "ripd_instance_passive_default_modify h event dnode resource w =
     (if event \<noteq> NB_EV_APPLY then Some (NB_OK, resource, w)
      else do {
        r \<leftarrow> rip (ripd w);
        let r' = r\<lparr>passive_default := yang_dnode_get_bool dnode None\<rparr>;
        let d = rip_passive_nondefault_clean h ((ripd w)\<lparr>rip := Some r'\<rparr>);
        Some (NB_OK, resource, w\<lparr>ripd := d\<rparr>)
      })"

subsection \<open>XPath: /frr-ripd:ripd/instance/passive-interface\<close>

definition ripd_instance_passive_interface_create :: "'e helpers \<Rightarrow> 'e cfg_cb" where
  "ripd_instance_passive_interface_create h event dnode resource w =
     (if event \<noteq> NB_EV_APPLY then Some (NB_OK, resource, w)
      else
        let name = yang_dnode_get_string dnode None;
            (ret, d) = rip_passive_nondefault_set h name (ripd w)
        in Some (ret, resource, w\<lparr>ripd := d\<rparr>))"

definition ripd_instance_passive_interface_delete :: "'e helpers \<Rightarrow> 'e del_cb" where
  "ripd_instance_passive_interface_delete h event dnode w =
     (if event \<noteq> NB_EV_APPLY then Some (NB_OK, w)
      else
        let name = yang_dnode_get_string dnode None;
            (ret, d) = rip_passive_nondefault_unset h name (ripd w)
        in Some (ret, w\<lparr>ripd := d\<rparr>))"

subsection \<open>XPath: /frr-ripd:ripd/instance/non-passive-interface\<close>

definition ripd_instance_non_passive_interface_create :: "'e helpers \<Rightarrow> 'e cfg_cb" where
  "ripd_instance_non_passive_interface_create h event dnode resource w =
     (if event \<noteq> NB_EV_APPLY then Some (NB_OK, resource, w)
      else
        let name = yang_dnode_get_string dnode None;
            (ret, d) = rip_passive_nondefault_unset h name (ripd w)
        in Some (ret, resource, w\<lparr>ripd := d\<rparr>))"

definition ripd_instance_non_passive_interface_delete :: "'e helpers \<Rightarrow> 'e del_cb" where
  "ripd_instance_non_passive_interface_delete h event dnode w =
     (if event \<noteq> NB_EV_APPLY then Some (NB_OK, w)
      else
        let name = yang_dnode_get_string dnode None;
            (ret, d) = rip_passive_nondefault_set h name (ripd w)
        in Some (ret, w\<lparr>ripd := d\<rparr>))"


subsection \<open>XPath: /frr-ripd:ripd/instance/redistribute\<close>

definition ripd_instance_redistribute_create :: "'e helpers \<Rightarrow> 'e cfg_cb" where
  "ripd_instance_redistribute_create h event dnode resource w = Some (NB_OK, resource, w)"

definition ripd_instance_redistribute_delete :: "'e helpers \<Rightarrow> 'e del_cb" where
  "ripd_instance_redistribute_delete h event dnode w =
     (if event \<noteq> NB_EV_APPLY then Some (NB_OK, w)
      else
        let type = yang_dnode_get_enum dnode (Some ''./protocol'') in
        Some (NB_OK, w\<lparr>ripd := rip_redistribute_conf_delete type (ripd w)\<rparr>))"

definition ripd_instance_redistribute_apply_finish :: "'e helpers \<Rightarrow> 'e fin_cb" where
  "ripd_instance_redistribute_apply_finish h dnode w =
     (let type = yang_dnode_get_enum dnode (Some ''./protocol'') in
      Some (w\<lparr>ripd := rip_redistribute_conf_update type (ripd w)\<rparr>))"

subsection \<open>XPath: /frr-ripd:ripd/instance/redistribute/route-map\<close>

definition ripd_instance_redistribute_route_map_modify :: "'e helpers \<Rightarrow> 'e cfg_cb" where
  "ripd_instance_redistribute_route_map_modify h event dnode resource w =
     (if event \<noteq> NB_EV_APPLY then Some (NB_OK, resource, w)
      else do {
        let type = yang_dnode_get_enum dnode (Some ''../protocol'');
        let rmap_name = yang_dnode_get_string dnode None;
        r \<leftarrow> rip (ripd w);
        let d1 = (if rm_name (route_map r type) \<noteq> None
                  then free (rm_name (route_map r type)) (ripd w) else ripd w);
        let (s, d2) = strdup rmap_name d1;
        r1 \<leftarrow> rip d2;
        let d3 = d2\<lparr>rip := Some (r1\<lparr>route_map :=
                   (route_map r1)(type := (route_map r1 type)\<lparr>rm_name := Some s\<rparr>)\<rparr>)\<rparr>;
        let m = route_map_lookup_by_name h rmap_name d3;
        r2 \<leftarrow> rip d3;
        let d4 = d3\<lparr>rip := Some (r2\<lparr>route_map :=
                   (route_map r2)(type := (route_map r2 type)\<lparr>rm_map := m\<rparr>)\<rparr>)\<rparr>;
        Some (NB_OK, resource, w\<lparr>ripd := d4\<rparr>)
      })"

definition ripd_instance_redistribute_route_map_delete :: "'e helpers \<Rightarrow> 'e del_cb" where
  "ripd_instance_redistribute_route_map_delete h event dnode w =
     (if event \<noteq> NB_EV_APPLY then Some (NB_OK, w)
      else do {
        let type = yang_dnode_get_enum dnode (Some ''../protocol'');
        r \<leftarrow> rip (ripd w);
        let d1 =
          (if rm_name (route_map r type) \<noteq> None then
             (free (rm_name (route_map r type)) (ripd w))
               \<lparr>rip := Some (r\<lparr>route_map :=
                  (route_map r)(type := (route_map r type)\<lparr>rm_name := None\<rparr>)\<rparr>)\<rparr>
           else ripd w);
        Some (NB_OK, w\<lparr>ripd := d1\<rparr>)
      })"

subsection \<open>XPath: /frr-ripd:ripd/instance/redistribute/metric\<close>

definition ripd_instance_redistribute_metric_modify :: "'e helpers \<Rightarrow> 'e cfg_cb" where
  "ripd_instance_redistribute_metric_modify h event dnode resource w =
     (if event \<noteq> NB_EV_APPLY then Some (NB_OK, resource, w)
      else do {
        let type = yang_dnode_get_enum dnode (Some ''../protocol'');
        let metric' = yang_dnode_get_uint8 dnode None;
        r \<leftarrow> rip (ripd w);
        let r' = r\<lparr>route_map := (route_map r)(type :=
                   (route_map r type)\<lparr>metric_config := True, rm_metric := ucast metric'\<rparr>)\<rparr>;
        Some (NB_OK, resource, w\<lparr>ripd := (ripd w)\<lparr>rip := Some r'\<rparr>\<rparr>)
      })"

definition ripd_instance_redistribute_metric_delete :: "'e helpers \<Rightarrow> 'e del_cb" where
  "ripd_instance_redistribute_metric_delete h event dnode w =
     (if event \<noteq> NB_EV_APPLY then Some (NB_OK, w)
      else do {
        let type = yang_dnode_get_enum dnode (Some ''../protocol'');
        r \<leftarrow> rip (ripd w);
        let r' = r\<lparr>route_map := (route_map r)(type :=
                   (route_map r type)\<lparr>metric_config := False, rm_metric := 0\<rparr>)\<rparr>;
        Some (NB_OK, w\<lparr>ripd := (ripd w)\<lparr>rip := Some r'\<rparr>\<rparr>)
      })"

subsection \<open>XPath: /frr-ripd:ripd/instance/static-route\<close>

definition ripd_instance_static_route_create :: "'e helpers \<Rightarrow> 'e cfg_cb" where
  "ripd_instance_static_route_create h event dnode resource w =
     (if event \<noteq> NB_EV_APPLY then Some (NB_OK, resource, w)
      else
        let p = yang_dnode_get_ipv4p dnode None;
            nh = nexthop_zero\<lparr>nh_type := NEXTHOP_TYPE_IPV4\<rparr>
        in Some (NB_OK, resource,
             w\<lparr>ripd := rip_redistribute_add h ZEBRA_ROUTE_RIP RIP_ROUTE_STATIC p nh 0 0 0 (ripd w)\<rparr>))"

definition ripd_instance_static_route_delete :: "'e helpers \<Rightarrow> 'e del_cb" where
  "ripd_instance_static_route_delete h event dnode w =
     (if event \<noteq> NB_EV_APPLY then Some (NB_OK, w)
      else
        let p = yang_dnode_get_ipv4p dnode None in
        Some (NB_OK,
          w\<lparr>ripd := rip_redistribute_delete h ZEBRA_ROUTE_RIP RIP_ROUTE_STATIC p 0 (ripd w)\<rparr>))"

subsection \<open>XPath: /frr-ripd:ripd/instance/timers\<close>

definition ripd_instance_timers_apply_finish :: "'e helpers \<Rightarrow> 'e fin_cb" where
  "ripd_instance_timers_apply_finish h dnode w =
     do {
       d \<leftarrow> rip_event RIP_UPDATE_EVENT 0 (ripd w);
       Some (w\<lparr>ripd := d\<rparr>)
     }"

definition ripd_instance_timers_flush_interval_modify :: "'e helpers \<Rightarrow> 'e cfg_cb" where
  "ripd_instance_timers_flush_interval_modify h event dnode resource w =
     (if event \<noteq> NB_EV_APPLY then Some (NB_OK, resource, w)
      else do {
        r \<leftarrow> rip (ripd w);
        let r' = r\<lparr>garbage_time := yang_dnode_get_uint32 dnode None\<rparr>;
        Some (NB_OK, resource, w\<lparr>ripd := (ripd w)\<lparr>rip := Some r'\<rparr>\<rparr>)
      })"

definition ripd_instance_timers_holddown_interval_modify :: "'e helpers \<Rightarrow> 'e cfg_cb" where
  "ripd_instance_timers_holddown_interval_modify h event dnode resource w =
     (if event \<noteq> NB_EV_APPLY then Some (NB_OK, resource, w)
      else do {
        r \<leftarrow> rip (ripd w);
        let r' = r\<lparr>timeout_time := yang_dnode_get_uint32 dnode None\<rparr>;
        Some (NB_OK, resource, w\<lparr>ripd := (ripd w)\<lparr>rip := Some r'\<rparr>\<rparr>)
      })"

definition ripd_instance_timers_update_interval_modify :: "'e helpers \<Rightarrow> 'e cfg_cb" where
  "ripd_instance_timers_update_interval_modify h event dnode resource w =
     (if event \<noteq> NB_EV_APPLY then Some (NB_OK, resource, w)
      else do {
        r \<leftarrow> rip (ripd w);
        let r' = r\<lparr>update_time := yang_dnode_get_uint32 dnode None\<rparr>;
        Some (NB_OK, resource, w\<lparr>ripd := (ripd w)\<lparr>rip := Some r'\<rparr>\<rparr>)
      })"

subsection \<open>Callbacks marked "TODO: implement me"\<close>

text \<open>XPaths /frr-ripd:ripd/instance/version/receive and send, and the leaves under
  /frr-interface:lib/interface/frr-ripd:rip.\<close>

definition ripd_instance_version_receive_modify :: "'e helpers \<Rightarrow> 'e cfg_cb" where
  "ripd_instance_version_receive_modify h event dnode resource w = Some (NB_OK, resource, w)"

definition ripd_instance_version_send_modify :: "'e helpers \<Rightarrow> 'e cfg_cb" where
  "ripd_instance_version_send_modify h event dnode resource w = Some (NB_OK, resource, w)"

definition lib_interface_rip_split_horizon_modify :: "'e helpers \<Rightarrow> 'e cfg_cb" where
  "lib_interface_rip_split_horizon_modify h event dnode resource w = Some (NB_OK, resource, w)"

definition lib_interface_rip_v2_broadcast_modify :: "'e helpers \<Rightarrow> 'e cfg_cb" where
  "lib_interface_rip_v2_broadcast_modify h event dnode resource w = Some (NB_OK, resource, w)"

definition lib_interface_rip_version_receive_modify :: "'e helpers \<Rightarrow> 'e cfg_cb" where
  "lib_interface_rip_version_receive_modify h event dnode resource w = Some (NB_OK, resource, w)"

definition lib_interface_rip_version_send_modify :: "'e helpers \<Rightarrow> 'e cfg_cb" where
  "lib_interface_rip_version_send_modify h event dnode resource w = Some (NB_OK, resource, w)"

definition lib_interface_rip_authentication_scheme_mode_modify :: "'e helpers \<Rightarrow> 'e cfg_cb" where
  "lib_interface_rip_authentication_scheme_mode_modify h event dnode resource w = Some (NB_OK, resource, w)"

definition lib_interface_rip_authentication_scheme_md5_auth_length_modify :: "'e helpers \<Rightarrow> 'e cfg_cb" where
  "lib_interface_rip_authentication_scheme_md5_auth_length_modify h event dnode resource w = Some (NB_OK, resource, w)"

definition lib_interface_rip_authentication_scheme_md5_auth_length_delete :: "'e helpers \<Rightarrow> 'e del_cb" where
  "lib_interface_rip_authentication_scheme_md5_auth_length_delete h event dnode w = Some (NB_OK, w)"

definition lib_interface_rip_authentication_password_modify :: "'e helpers \<Rightarrow> 'e cfg_cb" where
  "lib_interface_rip_authentication_password_modify h event dnode resource w = Some (NB_OK, resource, w)"

definition lib_interface_rip_authentication_password_delete :: "'e helpers \<Rightarrow> 'e del_cb" where
  "lib_interface_rip_authentication_password_delete h event dnode w = Some (NB_OK, w)"

definition lib_interface_rip_authentication_key_chain_modify :: "'e helpers \<Rightarrow> 'e cfg_cb" where
  "lib_interface_rip_authentication_key_chain_modify h event dnode resource w = Some (NB_OK, resource, w)"

definition lib_interface_rip_authentication_key_chain_delete :: "'e helpers \<Rightarrow> 'e del_cb" where
  "lib_interface_rip_authentication_key_chain_delete h event dnode w = Some (NB_OK, w)"

section \<open>State callbacks and the rpc\<close>

text \<open>
  A list entry \<open>const void *list_entry\<close> is a pointer, \<open>None\<close> for \<open>NULL\<close>.
  \<open>get_next\<close> and \<open>lookup_entry\<close> are to find entries in the daemon, which a C function
  reaches through the globals: they take the state as their last argument.  \<open>get_keys\<close>
  fills the key tuple it is handed and returns a status; \<open>get_elem\<close> returns the data of a
  leaf, or \<open>NULL\<close>.  The rpc takes the input list and fills the output list.
\<close>

record yang_list_keys =
  num :: nat
  key :: "string list"

record yang_data =
  yd_xpath :: string
  yd_value :: string

subsection \<open>XPath: /frr-ripd:ripd/state/neighbors/neighbor\<close>

definition ripd_state_neighbors_neighbor_get_next ::
    "string \<Rightarrow> addr option \<Rightarrow> 'e world \<Rightarrow> addr option" where
  "ripd_state_neighbors_neighbor_get_next xpath list_entry w = None"

definition ripd_state_neighbors_neighbor_get_keys ::
    "addr option \<Rightarrow> yang_list_keys \<Rightarrow> nb_error \<times> yang_list_keys" where
  "ripd_state_neighbors_neighbor_get_keys list_entry keys = (NB_OK, keys)"

definition ripd_state_neighbors_neighbor_lookup_entry ::
    "yang_list_keys \<Rightarrow> 'e world \<Rightarrow> addr option" where
  "ripd_state_neighbors_neighbor_lookup_entry keys w = None"

definition ripd_state_neighbors_neighbor_address_get_elem :: "string \<Rightarrow> addr option \<Rightarrow> yang_data option" where
  "ripd_state_neighbors_neighbor_address_get_elem xpath list_entry = None"

definition ripd_state_neighbors_neighbor_last_update_get_elem :: "string \<Rightarrow> addr option \<Rightarrow> yang_data option" where
  "ripd_state_neighbors_neighbor_last_update_get_elem xpath list_entry = None"

definition ripd_state_neighbors_neighbor_bad_packets_rcvd_get_elem :: "string \<Rightarrow> addr option \<Rightarrow> yang_data option" where
  "ripd_state_neighbors_neighbor_bad_packets_rcvd_get_elem xpath list_entry = None"

definition ripd_state_neighbors_neighbor_bad_routes_rcvd_get_elem :: "string \<Rightarrow> addr option \<Rightarrow> yang_data option" where
  "ripd_state_neighbors_neighbor_bad_routes_rcvd_get_elem xpath list_entry = None"

subsection \<open>XPath: /frr-ripd:ripd/state/routes/route\<close>

definition ripd_state_routes_route_get_next ::
    "string \<Rightarrow> addr option \<Rightarrow> 'e world \<Rightarrow> addr option" where
  "ripd_state_routes_route_get_next xpath list_entry w = None"

definition ripd_state_routes_route_get_keys ::
    "addr option \<Rightarrow> yang_list_keys \<Rightarrow> nb_error \<times> yang_list_keys" where
  "ripd_state_routes_route_get_keys list_entry keys = (NB_OK, keys)"

definition ripd_state_routes_route_lookup_entry ::
    "yang_list_keys \<Rightarrow> 'e world \<Rightarrow> addr option" where
  "ripd_state_routes_route_lookup_entry keys w = None"

definition ripd_state_routes_route_prefix_get_elem :: "string \<Rightarrow> addr option \<Rightarrow> yang_data option" where
  "ripd_state_routes_route_prefix_get_elem xpath list_entry = None"

definition ripd_state_routes_route_next_hop_get_elem :: "string \<Rightarrow> addr option \<Rightarrow> yang_data option" where
  "ripd_state_routes_route_next_hop_get_elem xpath list_entry = None"

definition ripd_state_routes_route_interface_get_elem :: "string \<Rightarrow> addr option \<Rightarrow> yang_data option" where
  "ripd_state_routes_route_interface_get_elem xpath list_entry = None"

definition ripd_state_routes_route_metric_get_elem :: "string \<Rightarrow> addr option \<Rightarrow> yang_data option" where
  "ripd_state_routes_route_metric_get_elem xpath list_entry = None"

subsection \<open>XPath: /frr-ripd:clear-rip-route\<close>

definition clear_rip_route_rpc ::
    "string \<Rightarrow> yang_data list \<Rightarrow> yang_data list \<Rightarrow> nb_error \<times> yang_data list" where
  "clear_rip_route_rpc xpath input output = (NB_OK, output)"


section \<open>The table of callbacks\<close>

text \<open>
  \<open>struct nb_callbacks\<close>, one optional member per kind of callback.  The member
  \<open>cli_show\<close> holds the routines of ripd/rip_cli.c that print the configuration; they are
  left out.  In the initialiser of \<open>frr_ripd_info\<close> the members that are not named are
  null: \<open>no_callbacks\<close>.  The entry with the null \<open>xpath\<close> that ends the C array is the
  end of the list.
\<close>

record 'e nb_callbacks =
  create :: "'e cfg_cb option"
  modify :: "'e cfg_cb option"
  delete :: "'e del_cb option"
  apply_finish :: "'e fin_cb option"
  get_next :: "(string \<Rightarrow> addr option \<Rightarrow> 'e world \<Rightarrow> addr option) option"
  get_keys :: "(addr option \<Rightarrow> yang_list_keys \<Rightarrow> nb_error \<times> yang_list_keys) option"
  lookup_entry :: "(yang_list_keys \<Rightarrow> 'e world \<Rightarrow> addr option) option"
  get_elem :: "(string \<Rightarrow> addr option \<Rightarrow> yang_data option) option"
  rpc :: "(string \<Rightarrow> yang_data list \<Rightarrow> yang_data list \<Rightarrow> nb_error \<times> yang_data list) option"

definition no_callbacks :: "'e nb_callbacks" where
  "no_callbacks =
     \<lparr>create = None, modify = None, delete = None, apply_finish = None, get_next = None,
      get_keys = None, lookup_entry = None, get_elem = None, rpc = None\<rparr>"

record 'e nb_node =
  xpath :: string
  cbs :: "'e nb_callbacks"

record 'e frr_yang_module_info =
  name :: string
  nodes :: "'e nb_node list"

definition frr_ripd_info :: "'e helpers \<Rightarrow> 'e frr_yang_module_info" where
  "frr_ripd_info h =
    \<lparr>name = ''frr-ripd'',
     nodes = [
      \<lparr>xpath = ''/frr-ripd:ripd/instance'',
       cbs = no_callbacks\<lparr>create := Some (ripd_instance_create h),
         delete := Some (ripd_instance_delete h)\<rparr>\<rparr>,
      \<lparr>xpath = ''/frr-ripd:ripd/instance/allow-ecmp'',
       cbs = no_callbacks\<lparr>modify := Some (ripd_instance_allow_ecmp_modify h)\<rparr>\<rparr>,
      \<lparr>xpath = ''/frr-ripd:ripd/instance/default-information-originate'',
       cbs = no_callbacks\<lparr>modify := Some (ripd_instance_default_information_originate_modify h)\<rparr>\<rparr>,
      \<lparr>xpath = ''/frr-ripd:ripd/instance/default-metric'',
       cbs = no_callbacks\<lparr>modify := Some (ripd_instance_default_metric_modify h)\<rparr>\<rparr>,
      \<lparr>xpath = ''/frr-ripd:ripd/instance/distance/default'',
       cbs = no_callbacks\<lparr>modify := Some (ripd_instance_distance_default_modify h)\<rparr>\<rparr>,
      \<lparr>xpath = ''/frr-ripd:ripd/instance/distance/source'',
       cbs = no_callbacks\<lparr>create := Some (ripd_instance_distance_source_create h),
         delete := Some (ripd_instance_distance_source_delete h)\<rparr>\<rparr>,
      \<lparr>xpath = ''/frr-ripd:ripd/instance/distance/source/distance'',
       cbs = no_callbacks\<lparr>modify := Some (ripd_instance_distance_source_distance_modify h)\<rparr>\<rparr>,
      \<lparr>xpath = ''/frr-ripd:ripd/instance/distance/source/access-list'',
       cbs = no_callbacks\<lparr>modify := Some (ripd_instance_distance_source_access_list_modify h),
         delete := Some (ripd_instance_distance_source_access_list_delete h)\<rparr>\<rparr>,
      \<lparr>xpath = ''/frr-ripd:ripd/instance/explicit-neighbor'',
       cbs = no_callbacks\<lparr>create := Some (ripd_instance_explicit_neighbor_create h),
         delete := Some (ripd_instance_explicit_neighbor_delete h)\<rparr>\<rparr>,
      \<lparr>xpath = ''/frr-ripd:ripd/instance/network'',
       cbs = no_callbacks\<lparr>create := Some (ripd_instance_network_create h),
         delete := Some (ripd_instance_network_delete h)\<rparr>\<rparr>,
      \<lparr>xpath = ''/frr-ripd:ripd/instance/interface'',
       cbs = no_callbacks\<lparr>create := Some (ripd_instance_interface_create h),
         delete := Some (ripd_instance_interface_delete h)\<rparr>\<rparr>,
      \<lparr>xpath = ''/frr-ripd:ripd/instance/offset-list'',
       cbs = no_callbacks\<lparr>create := Some (ripd_instance_offset_list_create h),
         delete := Some (ripd_instance_offset_list_delete h)\<rparr>\<rparr>,
      \<lparr>xpath = ''/frr-ripd:ripd/instance/offset-list/access-list'',
       cbs = no_callbacks\<lparr>modify := Some (ripd_instance_offset_list_access_list_modify h)\<rparr>\<rparr>,
      \<lparr>xpath = ''/frr-ripd:ripd/instance/offset-list/metric'',
       cbs = no_callbacks\<lparr>modify := Some (ripd_instance_offset_list_metric_modify h)\<rparr>\<rparr>,
      \<lparr>xpath = ''/frr-ripd:ripd/instance/passive-default'',
       cbs = no_callbacks\<lparr>modify := Some (ripd_instance_passive_default_modify h)\<rparr>\<rparr>,
      \<lparr>xpath = ''/frr-ripd:ripd/instance/passive-interface'',
       cbs = no_callbacks\<lparr>create := Some (ripd_instance_passive_interface_create h),
         delete := Some (ripd_instance_passive_interface_delete h)\<rparr>\<rparr>,
      \<lparr>xpath = ''/frr-ripd:ripd/instance/non-passive-interface'',
       cbs = no_callbacks\<lparr>create := Some (ripd_instance_non_passive_interface_create h),
         delete := Some (ripd_instance_non_passive_interface_delete h)\<rparr>\<rparr>,
      \<lparr>xpath = ''/frr-ripd:ripd/instance/redistribute'',
       cbs = no_callbacks\<lparr>create := Some (ripd_instance_redistribute_create h),
         delete := Some (ripd_instance_redistribute_delete h),
         apply_finish := Some (ripd_instance_redistribute_apply_finish h)\<rparr>\<rparr>,
      \<lparr>xpath = ''/frr-ripd:ripd/instance/redistribute/route-map'',
       cbs = no_callbacks\<lparr>modify := Some (ripd_instance_redistribute_route_map_modify h),
         delete := Some (ripd_instance_redistribute_route_map_delete h)\<rparr>\<rparr>,
      \<lparr>xpath = ''/frr-ripd:ripd/instance/redistribute/metric'',
       cbs = no_callbacks\<lparr>modify := Some (ripd_instance_redistribute_metric_modify h),
         delete := Some (ripd_instance_redistribute_metric_delete h)\<rparr>\<rparr>,
      \<lparr>xpath = ''/frr-ripd:ripd/instance/static-route'',
       cbs = no_callbacks\<lparr>create := Some (ripd_instance_static_route_create h),
         delete := Some (ripd_instance_static_route_delete h)\<rparr>\<rparr>,
      \<lparr>xpath = ''/frr-ripd:ripd/instance/timers'',
       cbs = no_callbacks\<lparr>apply_finish := Some (ripd_instance_timers_apply_finish h)\<rparr>\<rparr>,
      \<lparr>xpath = ''/frr-ripd:ripd/instance/timers/flush-interval'',
       cbs = no_callbacks\<lparr>modify := Some (ripd_instance_timers_flush_interval_modify h)\<rparr>\<rparr>,
      \<lparr>xpath = ''/frr-ripd:ripd/instance/timers/holddown-interval'',
       cbs = no_callbacks\<lparr>modify := Some (ripd_instance_timers_holddown_interval_modify h)\<rparr>\<rparr>,
      \<lparr>xpath = ''/frr-ripd:ripd/instance/timers/update-interval'',
       cbs = no_callbacks\<lparr>modify := Some (ripd_instance_timers_update_interval_modify h)\<rparr>\<rparr>,
      \<lparr>xpath = ''/frr-ripd:ripd/instance/version/receive'',
       cbs = no_callbacks\<lparr>modify := Some (ripd_instance_version_receive_modify h)\<rparr>\<rparr>,
      \<lparr>xpath = ''/frr-ripd:ripd/instance/version/send'',
       cbs = no_callbacks\<lparr>modify := Some (ripd_instance_version_send_modify h)\<rparr>\<rparr>,
      \<lparr>xpath = ''/frr-interface:lib/interface/frr-ripd:rip/split-horizon'',
       cbs = no_callbacks\<lparr>modify := Some (lib_interface_rip_split_horizon_modify h)\<rparr>\<rparr>,
      \<lparr>xpath = ''/frr-interface:lib/interface/frr-ripd:rip/v2-broadcast'',
       cbs = no_callbacks\<lparr>modify := Some (lib_interface_rip_v2_broadcast_modify h)\<rparr>\<rparr>,
      \<lparr>xpath = ''/frr-interface:lib/interface/frr-ripd:rip/version-receive'',
       cbs = no_callbacks\<lparr>modify := Some (lib_interface_rip_version_receive_modify h)\<rparr>\<rparr>,
      \<lparr>xpath = ''/frr-interface:lib/interface/frr-ripd:rip/version-send'',
       cbs = no_callbacks\<lparr>modify := Some (lib_interface_rip_version_send_modify h)\<rparr>\<rparr>,
      \<lparr>xpath = ''/frr-interface:lib/interface/frr-ripd:rip/authentication-scheme/mode'',
       cbs = no_callbacks\<lparr>modify := Some (lib_interface_rip_authentication_scheme_mode_modify h)\<rparr>\<rparr>,
      \<lparr>xpath = ''/frr-interface:lib/interface/frr-ripd:rip/authentication-scheme/md5-auth-length'',
       cbs = no_callbacks\<lparr>modify := Some (lib_interface_rip_authentication_scheme_md5_auth_length_modify h),
         delete := Some (lib_interface_rip_authentication_scheme_md5_auth_length_delete h)\<rparr>\<rparr>,
      \<lparr>xpath = ''/frr-interface:lib/interface/frr-ripd:rip/authentication-password'',
       cbs = no_callbacks\<lparr>modify := Some (lib_interface_rip_authentication_password_modify h),
         delete := Some (lib_interface_rip_authentication_password_delete h)\<rparr>\<rparr>,
      \<lparr>xpath = ''/frr-interface:lib/interface/frr-ripd:rip/authentication-key-chain'',
       cbs = no_callbacks\<lparr>modify := Some (lib_interface_rip_authentication_key_chain_modify h),
         delete := Some (lib_interface_rip_authentication_key_chain_delete h)\<rparr>\<rparr>,
      \<lparr>xpath = ''/frr-ripd:ripd/state/neighbors/neighbor'',
       cbs = no_callbacks\<lparr>get_next := Some ripd_state_neighbors_neighbor_get_next,
         get_keys := Some ripd_state_neighbors_neighbor_get_keys,
         lookup_entry := Some ripd_state_neighbors_neighbor_lookup_entry\<rparr>\<rparr>,
      \<lparr>xpath = ''/frr-ripd:ripd/state/neighbors/neighbor/address'',
       cbs = no_callbacks\<lparr>get_elem := Some ripd_state_neighbors_neighbor_address_get_elem\<rparr>\<rparr>,
      \<lparr>xpath = ''/frr-ripd:ripd/state/neighbors/neighbor/last-update'',
       cbs = no_callbacks\<lparr>get_elem := Some ripd_state_neighbors_neighbor_last_update_get_elem\<rparr>\<rparr>,
      \<lparr>xpath = ''/frr-ripd:ripd/state/neighbors/neighbor/bad-packets-rcvd'',
       cbs = no_callbacks\<lparr>get_elem := Some ripd_state_neighbors_neighbor_bad_packets_rcvd_get_elem\<rparr>\<rparr>,
      \<lparr>xpath = ''/frr-ripd:ripd/state/neighbors/neighbor/bad-routes-rcvd'',
       cbs = no_callbacks\<lparr>get_elem := Some ripd_state_neighbors_neighbor_bad_routes_rcvd_get_elem\<rparr>\<rparr>,
      \<lparr>xpath = ''/frr-ripd:ripd/state/routes/route'',
       cbs = no_callbacks\<lparr>get_next := Some ripd_state_routes_route_get_next,
         get_keys := Some ripd_state_routes_route_get_keys,
         lookup_entry := Some ripd_state_routes_route_lookup_entry\<rparr>\<rparr>,
      \<lparr>xpath = ''/frr-ripd:ripd/state/routes/route/prefix'',
       cbs = no_callbacks\<lparr>get_elem := Some ripd_state_routes_route_prefix_get_elem\<rparr>\<rparr>,
      \<lparr>xpath = ''/frr-ripd:ripd/state/routes/route/next-hop'',
       cbs = no_callbacks\<lparr>get_elem := Some ripd_state_routes_route_next_hop_get_elem\<rparr>\<rparr>,
      \<lparr>xpath = ''/frr-ripd:ripd/state/routes/route/interface'',
       cbs = no_callbacks\<lparr>get_elem := Some ripd_state_routes_route_interface_get_elem\<rparr>\<rparr>,
      \<lparr>xpath = ''/frr-ripd:ripd/state/routes/route/metric'',
       cbs = no_callbacks\<lparr>get_elem := Some ripd_state_routes_route_metric_get_elem\<rparr>\<rparr>,
      \<lparr>xpath = ''/frr-ripd:clear-rip-route'',
       cbs = no_callbacks\<lparr>rpc := Some clear_rip_route_rpc\<rparr>\<rparr>
     ]\<rparr>"

section \<open>How the northbound layer drives the callbacks\<close>


text \<open>\<open>invoke_times k f w\<close>: the callback \<open>f\<close> invoked \<open>k\<close> times in a row from \<open>w\<close>.\<close>

fun invoke_times :: "nat \<Rightarrow> ('a \<Rightarrow> 'a option) \<Rightarrow> 'a \<Rightarrow> 'a option" where
  "invoke_times 0 f w = Some w"
| "invoke_times (Suc k) f w = (case f w of None \<Rightarrow> None | Some w' \<Rightarrow> invoke_times k f w')"

text \<open>
  The life of one distance/source entry: the entry \<open>dnode\<close> is created, its leaf
  access-list (the node \<open>leaf\<close>) is set, and the entry is deleted, each in the APPLY phase.
  The result is the final state, \<open>None\<close> when a callback fails.
\<close>

definition distance_source_lifecycle ::
    "'e helpers \<Rightarrow> lyd_node \<Rightarrow> lyd_node \<Rightarrow> nb_resource \<Rightarrow> 'e world \<Rightarrow> 'e world option" where
  "distance_source_lifecycle h dnode leaf resource w =
     do {
       (r1, res1, w1) \<leftarrow> ripd_instance_distance_source_create h NB_EV_APPLY dnode resource w;
       (r2, res2, w2) \<leftarrow>
         ripd_instance_distance_source_access_list_modify h NB_EV_APPLY leaf resource w1;
       (r3, w3) \<leftarrow> ripd_instance_distance_source_delete h NB_EV_APPLY dnode w2;
       if r1 = NB_OK \<and> r2 = NB_OK \<and> r3 = NB_OK then Some w3 else None
     }"

section \<open>Concrete values\<close>

text \<open>
  Values at which the theorems below are instantiated: an instance as \<open>rip_create\<close> might
  leave it, a daemon before any instance exists, with the three standard descriptors open, a
  routing engine whose socket creation succeeds with descriptor 3, one whose socket creation
  fails, and a configuration node with the identity and ancestors given, whose accessors
  return fixed values (the prefix is 10.0.0.0/8).
\<close>

definition ex_rip :: rip_instance where
  "ex_rip =
     \<lparr>ecmp = False, default_metric = 1, distance = 120, passive_default = False,
      route_map = (\<lambda>_. \<lparr>rm_name = None, rm_map = None, metric_config = False, rm_metric = 0\<rparr>),
      garbage_time = 120, timeout_time = 180, update_time = 30\<rparr>"

definition ex_ripd :: "unit ripd" where
  "ex_ripd =
     \<lparr>rip = None, rip_distance_table = Map.empty, route_nodes = Map.empty,
      distances = Map.empty, offset_lists = Map.empty, strings = Map.empty, brk = 0,
      freed = [], open_fds = {0, 1, 2}, t_update = None, redist = {}, known_neighbors = [],
      learned_routes = [], engine = ()\<rparr>"

definition ex_world :: "unit world" where
  "ex_world = \<lparr>priv = Map.empty, ripd = ex_ripd\<rparr>"

definition ex_helpers :: "unit helpers" where
  "ex_helpers =
     \<lparr>rip_create_socket = (\<lambda>d. (3, d\<lparr>open_fds := insert 3 (open_fds d)\<rparr>)),
      rip_create = (\<lambda>s d. d\<lparr>rip := Some ex_rip\<rparr>),
      rip_clean = (\<lambda>d. d\<lparr>rip := None\<rparr>),
      rip_ecmp_disable = (\<lambda>d. d),
      rip_redistribute_add = (\<lambda>t st p nh m ds tag d. d),
      rip_redistribute_delete = (\<lambda>t st p ifindex d. d),
      rip_neighbor_add = (\<lambda>p d. (NB_OK, d)),
      rip_neighbor_delete = (\<lambda>p d. (NB_OK, d)),
      rip_enable_network_add = (\<lambda>p d. (NB_OK, d)),
      rip_enable_network_delete = (\<lambda>p d. (NB_OK, d)),
      rip_enable_if_add = (\<lambda>s d. (NB_OK, d)),
      rip_enable_if_delete = (\<lambda>s d. (NB_OK, d)),
      rip_passive_nondefault_set = (\<lambda>s d. (NB_OK, d)),
      rip_passive_nondefault_unset = (\<lambda>s d. (NB_ERR_INCONSISTENCY, d)),
      rip_passive_nondefault_clean = (\<lambda>d. d),
      route_map_lookup_by_name = (\<lambda>s d. None)\<rparr>"

definition ex_helpers_no_socket :: "unit helpers" where
  "ex_helpers_no_socket = ex_helpers\<lparr>rip_create_socket := (\<lambda>d. (- 1, d))\<rparr>"

definition ex_dnode :: "nat \<Rightarrow> nat list \<Rightarrow> lyd_node" where
  "ex_dnode i ps =
     \<lparr>dn_id = i, dn_parents = ps,
      yang_dnode_get_bool = (\<lambda>x. True),
      yang_dnode_get_uint8 = (\<lambda>x. 5),
      yang_dnode_get_uint32 = (\<lambda>x. 30),
      yang_dnode_get_string = (\<lambda>x. ''eth0''),
      yang_dnode_get_enum = (\<lambda>x. 0),
      yang_dnode_get_ipv4 = (\<lambda>x. 0x0A000001),
      yang_dnode_get_ipv4p = (\<lambda>x. \<lparr>family = AF_INET, prefixlen = 8, prefix = 0x0A000000\<rparr>)\<rparr>"

text \<open>A daemon with one offset list, bound to node 7, whose two directions both name an
  access list; and node 7 seen with the direction "out".\<close>

definition ex_offset_world :: "unit world" where
  "ex_offset_world =
     \<lparr>priv = [7 \<mapsto> 0],
      ripd = ex_ripd
        \<lparr>offset_lists := [0 \<mapsto> \<lparr>ifname = ''eth0'',
           direct = (\<lambda>k. if k = 0 then \<lparr>alist_name = Some 1, metric = 0\<rparr>
                          else if k = 1 then \<lparr>alist_name = Some 2, metric = 0\<rparr>
                          else \<lparr>alist_name = None, metric = 0\<rparr>)\<rparr>],
         strings := [1 \<mapsto> ''acl-in'', 2 \<mapsto> ''acl-out''],
         brk := 3\<rparr>\<rparr>"

definition ex_dnode_out :: "nat \<Rightarrow> nat list \<Rightarrow> lyd_node" where
  "ex_dnode_out i ps = (ex_dnode i ps)\<lparr>yang_dnode_get_enum := (\<lambda>x. 1)\<rparr>"

text \<open>The daemon once the instance exists.\<close>

definition ex_world_rip :: "unit world" where
  "ex_world_rip = ex_world\<lparr>ripd := ex_ripd\<lparr>rip := Some ex_rip\<rparr>\<rparr>"



section \<open>Events other than APPLY\<close>

text \<open>
  Every configuration callback but \<open>ripd_instance_create\<close> starts with
  \<open>if (event != NB_EV_APPLY) return NB_OK;\<close> or returns \<open>NB_OK\<close> outright.
\<close>

lemma ripd_instance_allow_ecmp_modify_skip [simp]:
  "event \<noteq> NB_EV_APPLY \<Longrightarrow> ripd_instance_allow_ecmp_modify h event dnode resource w = Some (NB_OK, resource, w)"
  by (simp add: ripd_instance_allow_ecmp_modify_def)

lemma ripd_instance_default_information_originate_modify_skip [simp]:
  "event \<noteq> NB_EV_APPLY \<Longrightarrow> ripd_instance_default_information_originate_modify h event dnode resource w = Some (NB_OK, resource, w)"
  by (simp add: ripd_instance_default_information_originate_modify_def)

lemma ripd_instance_default_metric_modify_skip [simp]:
  "event \<noteq> NB_EV_APPLY \<Longrightarrow> ripd_instance_default_metric_modify h event dnode resource w = Some (NB_OK, resource, w)"
  by (simp add: ripd_instance_default_metric_modify_def)

lemma ripd_instance_distance_default_modify_skip [simp]:
  "event \<noteq> NB_EV_APPLY \<Longrightarrow> ripd_instance_distance_default_modify h event dnode resource w = Some (NB_OK, resource, w)"
  by (simp add: ripd_instance_distance_default_modify_def)

lemma ripd_instance_distance_source_create_skip [simp]:
  "event \<noteq> NB_EV_APPLY \<Longrightarrow> ripd_instance_distance_source_create h event dnode resource w = Some (NB_OK, resource, w)"
  by (simp add: ripd_instance_distance_source_create_def)

lemma ripd_instance_distance_source_distance_modify_skip [simp]:
  "event \<noteq> NB_EV_APPLY \<Longrightarrow> ripd_instance_distance_source_distance_modify h event dnode resource w = Some (NB_OK, resource, w)"
  by (simp add: ripd_instance_distance_source_distance_modify_def)

lemma ripd_instance_distance_source_access_list_modify_skip [simp]:
  "event \<noteq> NB_EV_APPLY \<Longrightarrow> ripd_instance_distance_source_access_list_modify h event dnode resource w = Some (NB_OK, resource, w)"
  by (simp add: ripd_instance_distance_source_access_list_modify_def)

lemma ripd_instance_explicit_neighbor_create_skip [simp]:
  "event \<noteq> NB_EV_APPLY \<Longrightarrow> ripd_instance_explicit_neighbor_create h event dnode resource w = Some (NB_OK, resource, w)"
  by (simp add: ripd_instance_explicit_neighbor_create_def)

lemma ripd_instance_network_create_skip [simp]:
  "event \<noteq> NB_EV_APPLY \<Longrightarrow> ripd_instance_network_create h event dnode resource w = Some (NB_OK, resource, w)"
  by (simp add: ripd_instance_network_create_def)

lemma ripd_instance_interface_create_skip [simp]:
  "event \<noteq> NB_EV_APPLY \<Longrightarrow> ripd_instance_interface_create h event dnode resource w = Some (NB_OK, resource, w)"
  by (simp add: ripd_instance_interface_create_def)

lemma ripd_instance_offset_list_create_skip [simp]:
  "event \<noteq> NB_EV_APPLY \<Longrightarrow> ripd_instance_offset_list_create h event dnode resource w = Some (NB_OK, resource, w)"
  by (simp add: ripd_instance_offset_list_create_def)

lemma ripd_instance_offset_list_access_list_modify_skip [simp]:
  "event \<noteq> NB_EV_APPLY \<Longrightarrow> ripd_instance_offset_list_access_list_modify h event dnode resource w = Some (NB_OK, resource, w)"
  by (simp add: ripd_instance_offset_list_access_list_modify_def)

lemma ripd_instance_offset_list_metric_modify_skip [simp]:
  "event \<noteq> NB_EV_APPLY \<Longrightarrow> ripd_instance_offset_list_metric_modify h event dnode resource w = Some (NB_OK, resource, w)"
  by (simp add: ripd_instance_offset_list_metric_modify_def)

lemma ripd_instance_passive_default_modify_skip [simp]:
  "event \<noteq> NB_EV_APPLY \<Longrightarrow> ripd_instance_passive_default_modify h event dnode resource w = Some (NB_OK, resource, w)"
  by (simp add: ripd_instance_passive_default_modify_def)

lemma ripd_instance_passive_interface_create_skip [simp]:
  "event \<noteq> NB_EV_APPLY \<Longrightarrow> ripd_instance_passive_interface_create h event dnode resource w = Some (NB_OK, resource, w)"
  by (simp add: ripd_instance_passive_interface_create_def)

lemma ripd_instance_non_passive_interface_create_skip [simp]:
  "event \<noteq> NB_EV_APPLY \<Longrightarrow> ripd_instance_non_passive_interface_create h event dnode resource w = Some (NB_OK, resource, w)"
  by (simp add: ripd_instance_non_passive_interface_create_def)

lemma ripd_instance_redistribute_create_skip [simp]:
  "event \<noteq> NB_EV_APPLY \<Longrightarrow> ripd_instance_redistribute_create h event dnode resource w = Some (NB_OK, resource, w)"
  by (simp add: ripd_instance_redistribute_create_def)

lemma ripd_instance_redistribute_route_map_modify_skip [simp]:
  "event \<noteq> NB_EV_APPLY \<Longrightarrow> ripd_instance_redistribute_route_map_modify h event dnode resource w = Some (NB_OK, resource, w)"
  by (simp add: ripd_instance_redistribute_route_map_modify_def)

lemma ripd_instance_redistribute_metric_modify_skip [simp]:
  "event \<noteq> NB_EV_APPLY \<Longrightarrow> ripd_instance_redistribute_metric_modify h event dnode resource w = Some (NB_OK, resource, w)"
  by (simp add: ripd_instance_redistribute_metric_modify_def)

lemma ripd_instance_static_route_create_skip [simp]:
  "event \<noteq> NB_EV_APPLY \<Longrightarrow> ripd_instance_static_route_create h event dnode resource w = Some (NB_OK, resource, w)"
  by (simp add: ripd_instance_static_route_create_def)

lemma ripd_instance_timers_flush_interval_modify_skip [simp]:
  "event \<noteq> NB_EV_APPLY \<Longrightarrow> ripd_instance_timers_flush_interval_modify h event dnode resource w = Some (NB_OK, resource, w)"
  by (simp add: ripd_instance_timers_flush_interval_modify_def)

lemma ripd_instance_timers_holddown_interval_modify_skip [simp]:
  "event \<noteq> NB_EV_APPLY \<Longrightarrow> ripd_instance_timers_holddown_interval_modify h event dnode resource w = Some (NB_OK, resource, w)"
  by (simp add: ripd_instance_timers_holddown_interval_modify_def)

lemma ripd_instance_timers_update_interval_modify_skip [simp]:
  "event \<noteq> NB_EV_APPLY \<Longrightarrow> ripd_instance_timers_update_interval_modify h event dnode resource w = Some (NB_OK, resource, w)"
  by (simp add: ripd_instance_timers_update_interval_modify_def)

lemma ripd_instance_version_receive_modify_skip [simp]:
  "event \<noteq> NB_EV_APPLY \<Longrightarrow> ripd_instance_version_receive_modify h event dnode resource w = Some (NB_OK, resource, w)"
  by (simp add: ripd_instance_version_receive_modify_def)

lemma ripd_instance_version_send_modify_skip [simp]:
  "event \<noteq> NB_EV_APPLY \<Longrightarrow> ripd_instance_version_send_modify h event dnode resource w = Some (NB_OK, resource, w)"
  by (simp add: ripd_instance_version_send_modify_def)

lemma lib_interface_rip_split_horizon_modify_skip [simp]:
  "event \<noteq> NB_EV_APPLY \<Longrightarrow> lib_interface_rip_split_horizon_modify h event dnode resource w = Some (NB_OK, resource, w)"
  by (simp add: lib_interface_rip_split_horizon_modify_def)

lemma lib_interface_rip_v2_broadcast_modify_skip [simp]:
  "event \<noteq> NB_EV_APPLY \<Longrightarrow> lib_interface_rip_v2_broadcast_modify h event dnode resource w = Some (NB_OK, resource, w)"
  by (simp add: lib_interface_rip_v2_broadcast_modify_def)

lemma lib_interface_rip_version_receive_modify_skip [simp]:
  "event \<noteq> NB_EV_APPLY \<Longrightarrow> lib_interface_rip_version_receive_modify h event dnode resource w = Some (NB_OK, resource, w)"
  by (simp add: lib_interface_rip_version_receive_modify_def)

lemma lib_interface_rip_version_send_modify_skip [simp]:
  "event \<noteq> NB_EV_APPLY \<Longrightarrow> lib_interface_rip_version_send_modify h event dnode resource w = Some (NB_OK, resource, w)"
  by (simp add: lib_interface_rip_version_send_modify_def)

lemma lib_interface_rip_authentication_scheme_mode_modify_skip [simp]:
  "event \<noteq> NB_EV_APPLY \<Longrightarrow> lib_interface_rip_authentication_scheme_mode_modify h event dnode resource w = Some (NB_OK, resource, w)"
  by (simp add: lib_interface_rip_authentication_scheme_mode_modify_def)

lemma lib_interface_rip_authentication_scheme_md5_auth_length_modify_skip [simp]:
  "event \<noteq> NB_EV_APPLY \<Longrightarrow> lib_interface_rip_authentication_scheme_md5_auth_length_modify h event dnode resource w = Some (NB_OK, resource, w)"
  by (simp add: lib_interface_rip_authentication_scheme_md5_auth_length_modify_def)

lemma lib_interface_rip_authentication_password_modify_skip [simp]:
  "event \<noteq> NB_EV_APPLY \<Longrightarrow> lib_interface_rip_authentication_password_modify h event dnode resource w = Some (NB_OK, resource, w)"
  by (simp add: lib_interface_rip_authentication_password_modify_def)

lemma lib_interface_rip_authentication_key_chain_modify_skip [simp]:
  "event \<noteq> NB_EV_APPLY \<Longrightarrow> lib_interface_rip_authentication_key_chain_modify h event dnode resource w = Some (NB_OK, resource, w)"
  by (simp add: lib_interface_rip_authentication_key_chain_modify_def)

lemma ripd_instance_delete_skip [simp]:
  "event \<noteq> NB_EV_APPLY \<Longrightarrow> ripd_instance_delete h event dnode w = Some (NB_OK, w)"
  by (simp add: ripd_instance_delete_def)

lemma ripd_instance_distance_source_delete_skip [simp]:
  "event \<noteq> NB_EV_APPLY \<Longrightarrow> ripd_instance_distance_source_delete h event dnode w = Some (NB_OK, w)"
  by (simp add: ripd_instance_distance_source_delete_def)

lemma ripd_instance_distance_source_access_list_delete_skip [simp]:
  "event \<noteq> NB_EV_APPLY \<Longrightarrow> ripd_instance_distance_source_access_list_delete h event dnode w = Some (NB_OK, w)"
  by (simp add: ripd_instance_distance_source_access_list_delete_def)

lemma ripd_instance_explicit_neighbor_delete_skip [simp]:
  "event \<noteq> NB_EV_APPLY \<Longrightarrow> ripd_instance_explicit_neighbor_delete h event dnode w = Some (NB_OK, w)"
  by (simp add: ripd_instance_explicit_neighbor_delete_def)

lemma ripd_instance_network_delete_skip [simp]:
  "event \<noteq> NB_EV_APPLY \<Longrightarrow> ripd_instance_network_delete h event dnode w = Some (NB_OK, w)"
  by (simp add: ripd_instance_network_delete_def)

lemma ripd_instance_interface_delete_skip [simp]:
  "event \<noteq> NB_EV_APPLY \<Longrightarrow> ripd_instance_interface_delete h event dnode w = Some (NB_OK, w)"
  by (simp add: ripd_instance_interface_delete_def)

lemma ripd_instance_offset_list_delete_skip [simp]:
  "event \<noteq> NB_EV_APPLY \<Longrightarrow> ripd_instance_offset_list_delete h event dnode w = Some (NB_OK, w)"
  by (simp add: ripd_instance_offset_list_delete_def)

lemma ripd_instance_passive_interface_delete_skip [simp]:
  "event \<noteq> NB_EV_APPLY \<Longrightarrow> ripd_instance_passive_interface_delete h event dnode w = Some (NB_OK, w)"
  by (simp add: ripd_instance_passive_interface_delete_def)

lemma ripd_instance_non_passive_interface_delete_skip [simp]:
  "event \<noteq> NB_EV_APPLY \<Longrightarrow> ripd_instance_non_passive_interface_delete h event dnode w = Some (NB_OK, w)"
  by (simp add: ripd_instance_non_passive_interface_delete_def)

lemma ripd_instance_redistribute_delete_skip [simp]:
  "event \<noteq> NB_EV_APPLY \<Longrightarrow> ripd_instance_redistribute_delete h event dnode w = Some (NB_OK, w)"
  by (simp add: ripd_instance_redistribute_delete_def)

lemma ripd_instance_redistribute_route_map_delete_skip [simp]:
  "event \<noteq> NB_EV_APPLY \<Longrightarrow> ripd_instance_redistribute_route_map_delete h event dnode w = Some (NB_OK, w)"
  by (simp add: ripd_instance_redistribute_route_map_delete_def)

lemma ripd_instance_redistribute_metric_delete_skip [simp]:
  "event \<noteq> NB_EV_APPLY \<Longrightarrow> ripd_instance_redistribute_metric_delete h event dnode w = Some (NB_OK, w)"
  by (simp add: ripd_instance_redistribute_metric_delete_def)

lemma ripd_instance_static_route_delete_skip [simp]:
  "event \<noteq> NB_EV_APPLY \<Longrightarrow> ripd_instance_static_route_delete h event dnode w = Some (NB_OK, w)"
  by (simp add: ripd_instance_static_route_delete_def)

lemma lib_interface_rip_authentication_scheme_md5_auth_length_delete_skip [simp]:
  "event \<noteq> NB_EV_APPLY \<Longrightarrow> lib_interface_rip_authentication_scheme_md5_auth_length_delete h event dnode w = Some (NB_OK, w)"
  by (simp add: lib_interface_rip_authentication_scheme_md5_auth_length_delete_def)

lemma lib_interface_rip_authentication_password_delete_skip [simp]:
  "event \<noteq> NB_EV_APPLY \<Longrightarrow> lib_interface_rip_authentication_password_delete h event dnode w = Some (NB_OK, w)"
  by (simp add: lib_interface_rip_authentication_password_delete_def)

lemma lib_interface_rip_authentication_key_chain_delete_skip [simp]:
  "event \<noteq> NB_EV_APPLY \<Longrightarrow> lib_interface_rip_authentication_key_chain_delete h event dnode w = Some (NB_OK, w)"
  by (simp add: lib_interface_rip_authentication_key_chain_delete_def)

lemma ripd_instance_create_validate [simp]:
  "ripd_instance_create h NB_EV_VALIDATE dnode resource w = Some (NB_OK, resource, w)"
  by (simp add: ripd_instance_create_def)

lemma ripd_instance_create_abort [simp]:
  "ripd_instance_create h NB_EV_ABORT dnode resource w =
     Some (NB_OK, resource, w\<lparr>ripd := close (fd resource) (ripd w)\<rparr>)"
  by (simp add: ripd_instance_create_def)

lemma instance_node_in_table:
  "\<lparr>xpath = ''/frr-ripd:ripd/instance'',
    cbs = no_callbacks\<lparr>create := Some (ripd_instance_create h),
      delete := Some (ripd_instance_delete h)\<rparr>\<rparr> \<in> set (nodes (frr_ripd_info h))"
  by (simp add: frr_ripd_info_def)

section \<open>VALIDATE\<close>

text \<open>
  C6.  Every configuration callback registered in \<open>frr_ripd_info\<close> (create, modify and
  delete of every node), called with the event VALIDATE, returns \<open>NB_OK\<close> and leaves the
  resource slot, the entry bindings and the whole daemon (the instance, every runtime object,
  the descriptors) exactly as they were.
\<close>

theorem validate_is_pure:
  "n \<in> set (nodes (frr_ripd_info h)) \<Longrightarrow>
     (\<forall>f. create (cbs n) = Some f \<or> modify (cbs n) = Some f \<longrightarrow>
        f NB_EV_VALIDATE dnode resource w = Some (NB_OK, resource, w))
     \<and> (\<forall>g. delete (cbs n) = Some g \<longrightarrow> g NB_EV_VALIDATE dnode w = Some (NB_OK, w))"
  by (auto simp add: frr_ripd_info_def no_callbacks_def)

theorem validate_is_pure_witness:
  "ripd_instance_create ex_helpers NB_EV_VALIDATE (ex_dnode 1 []) \<lparr>fd = 0\<rparr> ex_world
     = Some (NB_OK, \<lparr>fd = 0\<rparr>, ex_world)
   \<and> ripd_instance_delete ex_helpers NB_EV_VALIDATE (ex_dnode 1 []) ex_world
     = Some (NB_OK, ex_world)"
  using validate_is_pure [OF instance_node_in_table,
    of ex_helpers "ex_dnode 1 []" "\<lparr>fd = 0\<rparr>" ex_world]
  by (simp add: no_callbacks_def)

section \<open>Placeholders\<close>

text \<open>
  C8.  Every callback marked "TODO: implement me" that returns a status (the modify and
  delete callbacks of version/receive, version/send and of the interface leaves, the two
  \<open>get_keys\<close> callbacks and the rpc) returns \<open>NB_OK\<close> for every event and every argument,
  and changes nothing: the state, the resource slot, the key tuple and the output list come
  back as they were.
\<close>

theorem placeholders_return_ok:
  "ripd_instance_version_receive_modify h event dnode resource w = Some (NB_OK, resource, w)
   \<and> ripd_instance_version_send_modify h event dnode resource w = Some (NB_OK, resource, w)
   \<and> lib_interface_rip_split_horizon_modify h event dnode resource w = Some (NB_OK, resource, w)
   \<and> lib_interface_rip_v2_broadcast_modify h event dnode resource w = Some (NB_OK, resource, w)
   \<and> lib_interface_rip_version_receive_modify h event dnode resource w = Some (NB_OK, resource, w)
   \<and> lib_interface_rip_version_send_modify h event dnode resource w = Some (NB_OK, resource, w)
   \<and> lib_interface_rip_authentication_scheme_mode_modify h event dnode resource w = Some (NB_OK, resource, w)
   \<and> lib_interface_rip_authentication_scheme_md5_auth_length_modify h event dnode resource w = Some (NB_OK, resource, w)
   \<and> lib_interface_rip_authentication_password_modify h event dnode resource w = Some (NB_OK, resource, w)
   \<and> lib_interface_rip_authentication_key_chain_modify h event dnode resource w = Some (NB_OK, resource, w)
   \<and> lib_interface_rip_authentication_scheme_md5_auth_length_delete h event dnode w = Some (NB_OK, w)
   \<and> lib_interface_rip_authentication_password_delete h event dnode w = Some (NB_OK, w)
   \<and> lib_interface_rip_authentication_key_chain_delete h event dnode w = Some (NB_OK, w)
   \<and> ripd_state_neighbors_neighbor_get_keys list_entry keys = (NB_OK, keys)
   \<and> ripd_state_routes_route_get_keys list_entry keys = (NB_OK, keys)
   \<and> clear_rip_route_rpc xp input output = (NB_OK, output)"
  by (simp add: ripd_instance_version_receive_modify_def ripd_instance_version_send_modify_def lib_interface_rip_split_horizon_modify_def lib_interface_rip_v2_broadcast_modify_def lib_interface_rip_version_receive_modify_def lib_interface_rip_version_send_modify_def lib_interface_rip_authentication_scheme_mode_modify_def lib_interface_rip_authentication_scheme_md5_auth_length_modify_def lib_interface_rip_authentication_password_modify_def lib_interface_rip_authentication_key_chain_modify_def lib_interface_rip_authentication_scheme_md5_auth_length_delete_def lib_interface_rip_authentication_password_delete_def lib_interface_rip_authentication_key_chain_delete_def ripd_state_neighbors_neighbor_get_keys_def ripd_state_routes_route_get_keys_def clear_rip_route_rpc_def)

section \<open>Passive and non-passive interfaces\<close>

text \<open>
  C10.  For every event, node (hence every interface name) and state, the create callback of
  non-passive-interface computes what the delete callback of passive-interface computes (both
  call \<open>rip_passive_nondefault_unset\<close> on the name read from the node), and the delete
  callback of non-passive-interface computes what the create callback of passive-interface
  computes (both call \<open>rip_passive_nondefault_set\<close>): the same result and the same new
  state.  The create callbacks hand the resource slot back untouched.
\<close>

theorem non_passive_mirrors_passive:
  "ripd_instance_non_passive_interface_create h event dnode resource w
     = map_option (\<lambda>(ret, w'). (ret, resource, w'))
         (ripd_instance_passive_interface_delete h event dnode w)
   \<and> ripd_instance_passive_interface_create h event dnode resource w
     = map_option (\<lambda>(ret, w'). (ret, resource, w'))
         (ripd_instance_non_passive_interface_delete h event dnode w)"
  by (simp add: ripd_instance_non_passive_interface_create_def
      ripd_instance_passive_interface_delete_def ripd_instance_passive_interface_create_def
      ripd_instance_non_passive_interface_delete_def Let_def split: prod.split)

section \<open>The socket of the instance\<close>

lemma ex_socket_fails:
  "rip_create_socket ex_helpers_no_socket (ripd ex_world) = (- 1, ex_ripd)"
  by (simp add: ex_helpers_no_socket_def ex_world_def)

lemma ex_socket_succeeds:
  "rip_create_socket ex_helpers (ripd ex_world) = (3, ex_ripd\<lparr>open_fds := {0, 1, 2, 3}\<rparr>)"
  by (auto simp add: ex_helpers_def ex_world_def ex_ripd_def)

text \<open>
  C2.  \<open>ripd_instance_create\<close>.  On PREPARE it calls \<open>rip_create_socket\<close>; when the result
  is negative it returns \<open>NB_ERR_RESOURCE\<close> and stores nothing (the resource slot comes back
  as it was, and the state is the one \<open>rip_create_socket\<close> left: the callback itself opens
  no descriptor and creates no instance); otherwise it returns \<open>NB_OK\<close> with the socket
  stored in \<open>resource->fd\<close>.  On APPLY it passes the stored descriptor to \<open>rip_create\<close>.
\<close>

theorem instance_create_socket:
  "rip_create_socket h (ripd w) = (s, d) \<Longrightarrow>
     (s < 0 \<longrightarrow>
        ripd_instance_create h NB_EV_PREPARE dnode resource w
          = Some (NB_ERR_RESOURCE, resource, w\<lparr>ripd := d\<rparr>))
     \<and> (0 \<le> s \<longrightarrow>
        ripd_instance_create h NB_EV_PREPARE dnode resource w
          = Some (NB_OK, resource\<lparr>fd := s\<rparr>, w\<lparr>ripd := d\<rparr>))
     \<and> ripd_instance_create h NB_EV_APPLY dnode resource w
          = Some (NB_OK, resource, w\<lparr>ripd := rip_create h (fd resource) (ripd w)\<rparr>)"
  by (simp add: ripd_instance_create_def)

theorem instance_create_socket_witness:
  "ripd_instance_create ex_helpers_no_socket NB_EV_PREPARE (ex_dnode 1 []) \<lparr>fd = 0\<rparr> ex_world
     = Some (NB_ERR_RESOURCE, \<lparr>fd = 0\<rparr>, ex_world)
   \<and> rip (ripd ex_world) = None
   \<and> open_fds (ripd ex_world) = {0, 1, 2}
   \<and> ripd_instance_create ex_helpers NB_EV_PREPARE (ex_dnode 1 []) \<lparr>fd = 0\<rparr> ex_world
     = Some (NB_OK, \<lparr>fd = 3\<rparr>, ex_world\<lparr>ripd := ex_ripd\<lparr>open_fds := {0, 1, 2, 3}\<rparr>\<rparr>)
   \<and> ripd_instance_create ex_helpers NB_EV_APPLY (ex_dnode 1 []) \<lparr>fd = 3\<rparr>
        (ex_world\<lparr>ripd := ex_ripd\<lparr>open_fds := {0, 1, 2, 3}\<rparr>\<rparr>)
     = Some (NB_OK, \<lparr>fd = 3\<rparr>,
         ex_world\<lparr>ripd := ex_ripd\<lparr>rip := Some ex_rip, open_fds := {0, 1, 2, 3}\<rparr>\<rparr>)"
  using instance_create_socket [OF ex_socket_fails, of "ex_dnode 1 []" "\<lparr>fd = 0\<rparr>"]
    instance_create_socket [OF ex_socket_succeeds, of "ex_dnode 1 []" "\<lparr>fd = 0\<rparr>"]
    instance_create_socket [of ex_helpers "ex_world\<lparr>ripd := ex_ripd\<lparr>open_fds := {0, 1, 2, 3}\<rparr>\<rparr>"
      3 "ex_ripd\<lparr>open_fds := {0, 1, 2, 3}\<rparr>" "ex_dnode 1 []" "\<lparr>fd = 3\<rparr>"]
  by (simp add: ex_world_def ex_ripd_def ex_helpers_def insert_commute)

section \<open>ABORT\<close>

text \<open>
  C3 as stated fails.  The resource slot holds 0 and descriptor 0 is open; socket creation
  fails, so PREPARE returns \<open>NB_ERR_RESOURCE\<close> and stores nothing; ABORT then closes
  descriptor 0, which this change never acquired.
\<close>

theorem abort_after_failed_prepare_counterexample:
  "ripd_instance_create ex_helpers_no_socket NB_EV_PREPARE (ex_dnode 1 []) \<lparr>fd = 0\<rparr> ex_world
     = Some (NB_ERR_RESOURCE, \<lparr>fd = 0\<rparr>, ex_world)
   \<and> open_fds (ripd ex_world) = {0, 1, 2}
   \<and> ripd_instance_create ex_helpers_no_socket NB_EV_ABORT (ex_dnode 1 []) \<lparr>fd = 0\<rparr> ex_world
     = Some (NB_OK, \<lparr>fd = 0\<rparr>, ex_world\<lparr>ripd := ex_ripd\<lparr>open_fds := {1, 2}\<rparr>\<rparr>)"
  by (auto simp add: ripd_instance_create_def ex_helpers_no_socket_def ex_world_def ex_ripd_def
      close_def)

text \<open>
  C3, amended.  The ABORT phase of every configuration callback registered in
  \<open>frr_ripd_info\<close> returns \<open>NB_OK\<close>.  Every callback but \<open>ripd_instance_create\<close> changes
  nothing on ABORT.  \<open>ripd_instance_create\<close> closes the descriptor held in the resource
  slot, whatever it is: after a PREPARE that succeeded, that is the socket PREPARE acquired,
  and it is open no more.  The callback has no guard for a slot PREPARE never filled.
\<close>

theorem abort_phase:
  "n \<in> set (nodes (frr_ripd_info h)) \<Longrightarrow>
     (\<forall>f. create (cbs n) = Some f \<or> modify (cbs n) = Some f \<longrightarrow>
        f NB_EV_ABORT dnode resource w
          = Some (NB_OK, resource,
              if xpath n = ''/frr-ripd:ripd/instance''
              then w\<lparr>ripd := close (fd resource) (ripd w)\<rparr> else w))
     \<and> (\<forall>g. delete (cbs n) = Some g \<longrightarrow> g NB_EV_ABORT dnode w = Some (NB_OK, w))
     \<and> (\<forall>r' w'. ripd_instance_create h NB_EV_PREPARE dnode resource w = Some (NB_OK, r', w') \<longrightarrow>
          fd r' = fst (rip_create_socket h (ripd w))
          \<and> ripd_instance_create h NB_EV_ABORT dnode r' w'
              = Some (NB_OK, r', w'\<lparr>ripd := close (fst (rip_create_socket h (ripd w))) (ripd w')\<rparr>)
          \<and> fst (rip_create_socket h (ripd w))
              \<notin> open_fds (close (fst (rip_create_socket h (ripd w))) (ripd w')))"
  by (auto simp add: frr_ripd_info_def no_callbacks_def ripd_instance_create_def close_def
      split: prod.splits if_splits)

theorem abort_phase_witness:
  "ripd_instance_create ex_helpers NB_EV_PREPARE (ex_dnode 1 []) \<lparr>fd = 0\<rparr> ex_world
     = Some (NB_OK, \<lparr>fd = 3\<rparr>, ex_world\<lparr>ripd := ex_ripd\<lparr>open_fds := {0, 1, 2, 3}\<rparr>\<rparr>)
   \<and> ripd_instance_create ex_helpers NB_EV_ABORT (ex_dnode 1 []) \<lparr>fd = 3\<rparr>
        (ex_world\<lparr>ripd := ex_ripd\<lparr>open_fds := {0, 1, 2, 3}\<rparr>\<rparr>)
     = Some (NB_OK, \<lparr>fd = 3\<rparr>, ex_world)
   \<and> ripd_instance_delete ex_helpers NB_EV_ABORT (ex_dnode 1 []) ex_world
     = Some (NB_OK, ex_world)"
proof -
  have prep:
    "ripd_instance_create ex_helpers NB_EV_PREPARE (ex_dnode 1 []) \<lparr>fd = 0\<rparr> ex_world
       = Some (NB_OK, \<lparr>fd = 3\<rparr>, ex_world\<lparr>ripd := ex_ripd\<lparr>open_fds := {0, 1, 2, 3}\<rparr>\<rparr>)"
    by (auto simp add: ripd_instance_create_def ex_helpers_def ex_world_def ex_ripd_def)
  have sock: "fst (rip_create_socket ex_helpers (ripd ex_world)) = 3"
    by (simp add: ex_helpers_def)
  have cl: "close 3 (ex_ripd\<lparr>open_fds := {0, 1, 2, 3}\<rparr>) = ex_ripd"
    by (auto simp add: close_def ex_ripd_def)
  show ?thesis
    using abort_phase [OF instance_node_in_table,
        of ex_helpers "ex_dnode 1 []" "\<lparr>fd = 0\<rparr>" ex_world] prep sock cl
    by (simp add: no_callbacks_def ex_world_def)
qed

section \<open>Operational lists\<close>




section \<open>The apply_finish callbacks\<close>

lemma invoke_times_fixed: "f w = Some w \<Longrightarrow> invoke_times k f w = Some w"
  by (induction k) simp_all

lemma timers_apply_finish_idem:
  "ripd_instance_timers_apply_finish h dnode w0 = Some w \<Longrightarrow>
   ripd_instance_timers_apply_finish h dnode w = Some w"
  by (auto simp add: ripd_instance_timers_apply_finish_def rip_event_def
      split: option.splits Option.bind_splits)

lemma redistribute_apply_finish_idem:
  "ripd_instance_redistribute_apply_finish h dnode w0 = Some w \<Longrightarrow>
   ripd_instance_redistribute_apply_finish h dnode w = Some w"
  by (auto simp add: ripd_instance_redistribute_apply_finish_def rip_redistribute_conf_update_def)

lemma timers_apply_finish_fixed_iff:
  "ripd_instance_timers_apply_finish h dnode w = Some w
     \<longleftrightarrow> (\<exists>r. rip (ripd w) = Some r \<and> t_update (ripd w) = Some (0, update_time r))"
proof
  assume fixed: "ripd_instance_timers_apply_finish h dnode w = Some w"
  then obtain r where r: "rip (ripd w) = Some r"
    by (cases "rip (ripd w)")
      (simp_all add: ripd_instance_timers_apply_finish_def rip_event_def)
  with fixed have "w\<lparr>ripd := (ripd w)\<lparr>t_update := Some (0, update_time r)\<rparr>\<rparr> = w"
    by (simp add: ripd_instance_timers_apply_finish_def rip_event_def)
  then have "t_update (ripd (w\<lparr>ripd := (ripd w)\<lparr>t_update := Some (0, update_time r)\<rparr>\<rparr>))
      = t_update (ripd w)"
    by simp
  then have "t_update (ripd w) = Some (0, update_time r)"
    by simp
  with r show "\<exists>r. rip (ripd w) = Some r \<and> t_update (ripd w) = Some (0, update_time r)"
    by blast
next
  assume "\<exists>r. rip (ripd w) = Some r \<and> t_update (ripd w) = Some (0, update_time r)"
  then show "ripd_instance_timers_apply_finish h dnode w = Some w"
    by (auto simp add: ripd_instance_timers_apply_finish_def rip_event_def)
qed

lemma redistribute_apply_finish_fixed_iff:
  "ripd_instance_redistribute_apply_finish h dnode w = Some w
     \<longleftrightarrow> yang_dnode_get_enum dnode (Some ''./protocol'') \<in> redist (ripd w)"
proof
  let ?t = "yang_dnode_get_enum dnode (Some ''./protocol'')"
  assume "ripd_instance_redistribute_apply_finish h dnode w = Some w"
  then have "w\<lparr>ripd := (ripd w)\<lparr>redist := insert ?t (redist (ripd w))\<rparr>\<rparr> = w"
    by (simp add: ripd_instance_redistribute_apply_finish_def rip_redistribute_conf_update_def)
  then have "redist (ripd (w\<lparr>ripd := (ripd w)\<lparr>redist := insert ?t (redist (ripd w))\<rparr>\<rparr>))
      = redist (ripd w)"
    by simp
  then have "insert ?t (redist (ripd w)) = redist (ripd w)"
    by simp
  then show "?t \<in> redist (ripd w)"
    by blast
next
  assume "yang_dnode_get_enum dnode (Some ''./protocol'') \<in> redist (ripd w)"
  then show "ripd_instance_redistribute_apply_finish h dnode w = Some w"
    by (simp add: ripd_instance_redistribute_apply_finish_def rip_redistribute_conf_update_def
        insert_absorb)
qed

text \<open>
  C7 as stated fails.  The instance exists, no update timer is pending and no redistribution
  is requested; no field is modified.  Not invoking the callback leaves the state as it is;
  invoking it once arms the update timer (requests the redistribution of the protocol), and
  the two states differ.
\<close>

theorem apply_finish_once_differs_counterexample:
  "invoke_times 0 (ripd_instance_timers_apply_finish ex_helpers (ex_dnode 1 [])) ex_world_rip
     = Some ex_world_rip
   \<and> invoke_times (Suc 0) (ripd_instance_timers_apply_finish ex_helpers (ex_dnode 1 []))
        ex_world_rip
     = Some (ex_world\<lparr>ripd := ex_ripd\<lparr>rip := Some ex_rip, t_update := Some (0, 30)\<rparr>\<rparr>)
   \<and> ex_world\<lparr>ripd := ex_ripd\<lparr>rip := Some ex_rip, t_update := Some (0, 30)\<rparr>\<rparr> \<noteq> ex_world_rip
   \<and> invoke_times 0 (ripd_instance_redistribute_apply_finish ex_helpers (ex_dnode 1 []))
        ex_world_rip
     = Some ex_world_rip
   \<and> invoke_times (Suc 0) (ripd_instance_redistribute_apply_finish ex_helpers (ex_dnode 1 []))
        ex_world_rip
     = Some (ex_world\<lparr>ripd := ex_ripd\<lparr>rip := Some ex_rip, redist := {0}\<rparr>\<rparr>)
   \<and> ex_world\<lparr>ripd := ex_ripd\<lparr>rip := Some ex_rip, redist := {0}\<rparr>\<rparr> \<noteq> ex_world_rip"
  by (simp add: ripd_instance_timers_apply_finish_def rip_event_def
      ripd_instance_redistribute_apply_finish_def rip_redistribute_conf_update_def
      ex_world_rip_def ex_world_def ex_ripd_def ex_rip_def ex_dnode_def)

text \<open>
  C7, amended.  The two apply_finish callbacks (timers, redistribute) are idempotent: from
  any state, invoking the callback \<open>k + 1\<close> times gives what invoking it once gives.  Not
  invoking it gives the same state as invoking it exactly where its effect is already in
  place: for timers, where the pending update timer is the one armed from the instance's
  current update interval; for redistribute, where the redistribution of the entry's protocol
  is already requested.  In those states any number \<open>k\<close> of invocations (none, once, many)
  leaves the state as it is; in every other state one invocation changes the state, also
  when no watched field has changed.
\<close>

theorem apply_finish_idempotent:
  "invoke_times (Suc k) (ripd_instance_timers_apply_finish h dnode) w
     = ripd_instance_timers_apply_finish h dnode w
   \<and> invoke_times (Suc k) (ripd_instance_redistribute_apply_finish h dnode) w
     = ripd_instance_redistribute_apply_finish h dnode w
   \<and> (ripd_instance_timers_apply_finish h dnode w
        = invoke_times 0 (ripd_instance_timers_apply_finish h dnode) w
      \<longleftrightarrow> (\<exists>r. rip (ripd w) = Some r \<and> t_update (ripd w) = Some (0, update_time r)))
   \<and> (ripd_instance_redistribute_apply_finish h dnode w
        = invoke_times 0 (ripd_instance_redistribute_apply_finish h dnode) w
      \<longleftrightarrow> yang_dnode_get_enum dnode (Some ''./protocol'') \<in> redist (ripd w))
   \<and> ((\<exists>r. rip (ripd w) = Some r \<and> t_update (ripd w) = Some (0, update_time r)) \<longrightarrow>
        invoke_times k (ripd_instance_timers_apply_finish h dnode) w = Some w)
   \<and> (yang_dnode_get_enum dnode (Some ''./protocol'') \<in> redist (ripd w) \<longrightarrow>
        invoke_times k (ripd_instance_redistribute_apply_finish h dnode) w = Some w)"
proof (intro conjI impI)
  show "invoke_times (Suc k) (ripd_instance_timers_apply_finish h dnode) w
     = ripd_instance_timers_apply_finish h dnode w"
  proof (cases "ripd_instance_timers_apply_finish h dnode w")
    case None
    then show ?thesis by simp
  next
    case (Some w')
    then show ?thesis
      using timers_apply_finish_idem [OF Some] by (simp add: invoke_times_fixed)
  qed
next
  show "invoke_times (Suc k) (ripd_instance_redistribute_apply_finish h dnode) w
     = ripd_instance_redistribute_apply_finish h dnode w"
  proof (cases "ripd_instance_redistribute_apply_finish h dnode w")
    case None
    then show ?thesis by simp
  next
    case (Some w')
    then show ?thesis
      using redistribute_apply_finish_idem [OF Some] by (simp add: invoke_times_fixed)
  qed
next
  show "ripd_instance_timers_apply_finish h dnode w
        = invoke_times 0 (ripd_instance_timers_apply_finish h dnode) w
      \<longleftrightarrow> (\<exists>r. rip (ripd w) = Some r \<and> t_update (ripd w) = Some (0, update_time r))"
    using timers_apply_finish_fixed_iff [of h dnode w] by simp
next
  show "ripd_instance_redistribute_apply_finish h dnode w
        = invoke_times 0 (ripd_instance_redistribute_apply_finish h dnode) w
      \<longleftrightarrow> yang_dnode_get_enum dnode (Some ''./protocol'') \<in> redist (ripd w)"
    using redistribute_apply_finish_fixed_iff [of h dnode w] by simp
next
  assume "\<exists>r. rip (ripd w) = Some r \<and> t_update (ripd w) = Some (0, update_time r)"
  then have "ripd_instance_timers_apply_finish h dnode w = Some w"
    by (simp only: timers_apply_finish_fixed_iff)
  then show "invoke_times k (ripd_instance_timers_apply_finish h dnode) w = Some w"
    by (rule invoke_times_fixed)
next
  assume "yang_dnode_get_enum dnode (Some ''./protocol'') \<in> redist (ripd w)"
  then have "ripd_instance_redistribute_apply_finish h dnode w = Some w"
    by (simp only: redistribute_apply_finish_fixed_iff)
  then show "invoke_times k (ripd_instance_redistribute_apply_finish h dnode) w = Some w"
    by (rule invoke_times_fixed)
qed

theorem apply_finish_idempotent_witness:
  "invoke_times (Suc (Suc 0)) (ripd_instance_timers_apply_finish ex_helpers (ex_dnode 1 []))
        (ex_world\<lparr>ripd := ex_ripd\<lparr>rip := Some ex_rip, t_update := Some (0, 30)\<rparr>\<rparr>)
     = Some (ex_world\<lparr>ripd := ex_ripd\<lparr>rip := Some ex_rip, t_update := Some (0, 30)\<rparr>\<rparr>)
   \<and> invoke_times (Suc (Suc 0)) (ripd_instance_redistribute_apply_finish ex_helpers (ex_dnode 1 []))
        (ex_world\<lparr>ripd := ex_ripd\<lparr>redist := {0}\<rparr>\<rparr>)
     = Some (ex_world\<lparr>ripd := ex_ripd\<lparr>redist := {0}\<rparr>\<rparr>)
   \<and> invoke_times (Suc (Suc 0)) (ripd_instance_timers_apply_finish ex_helpers (ex_dnode 1 []))
        ex_world_rip
     = Some (ex_world\<lparr>ripd := ex_ripd\<lparr>rip := Some ex_rip, t_update := Some (0, 30)\<rparr>\<rparr>)"
proof -
  have t: "ripd_instance_timers_apply_finish ex_helpers (ex_dnode 1 []) ex_world_rip
     = Some (ex_world\<lparr>ripd := ex_ripd\<lparr>rip := Some ex_rip, t_update := Some (0, 30)\<rparr>\<rparr>)"
    by (simp add: ripd_instance_timers_apply_finish_def rip_event_def ex_world_rip_def
        ex_world_def ex_ripd_def ex_rip_def)
  have s: "rip (ripd (ex_world\<lparr>ripd := ex_ripd\<lparr>rip := Some ex_rip, t_update := Some (0, 30)\<rparr>\<rparr>))
        = Some ex_rip
      \<and> t_update (ripd (ex_world\<lparr>ripd := ex_ripd\<lparr>rip := Some ex_rip, t_update := Some (0, 30)\<rparr>\<rparr>))
        = Some (0, update_time ex_rip)"
    by (simp add: ex_rip_def)
  have p: "yang_dnode_get_enum (ex_dnode 1 []) (Some ''./protocol'')
      \<in> redist (ripd (ex_world\<lparr>ripd := ex_ripd\<lparr>redist := {0}\<rparr>\<rparr>))"
    by (simp add: ex_dnode_def)
  show ?thesis
    using apply_finish_idempotent [of "Suc (Suc 0)" ex_helpers "ex_dnode 1 []"
        "ex_world\<lparr>ripd := ex_ripd\<lparr>rip := Some ex_rip, t_update := Some (0, 30)\<rparr>\<rparr>"] s
      apply_finish_idempotent [of "Suc (Suc 0)" ex_helpers "ex_dnode 1 []"
        "ex_world\<lparr>ripd := ex_ripd\<lparr>redist := {0}\<rparr>\<rparr>"] p
      apply_finish_idempotent [of "Suc 0" ex_helpers "ex_dnode 1 []" ex_world_rip] t
    by simp
qed

section \<open>The shared record of an offset list\<close>

lemma offset_dir_clear_absent:
  "alist_name (direct ol k) = None \<Longrightarrow>
   ol\<lparr>direct := (direct ol)(k := (direct ol k)\<lparr>alist_name := None\<rparr>)\<rparr> = ol"
  by (cases ol) (auto simp add: fun_eq_iff)

text \<open>
  C4.  \<open>ripd_instance_offset_list_delete\<close> in the APPLY phase, on a node whose entry
  resolves to a live offset-list record.  The access-list name of the direction read from the
  node, if there is one, is freed and cleared.  The shared record is released (by
  \<open>offset_list_del\<close>) if and only if after that both the in and the out name are absent:
  when the "in" direction is deleted, if and only if "out" has no name, and the other way
  round.  Otherwise the record stays, with only that direction's name cleared.  \<open>freed\<close>
  grows by exactly the name (if any) and the record (if released).
\<close>

theorem offset_list_delete_shared_record:
  assumes "yang_dnode_get_entry dnode w = Some offset"
    and "offset_lists (ripd w) offset = Some ol"
  shows "\<exists>w'. ripd_instance_offset_list_delete h NB_EV_APPLY dnode w = Some (NB_OK, w')
     \<and> (let dir = yang_dnode_get_enum dnode (Some ''./direction'');
            ol' = ol\<lparr>direct := (direct ol)(dir := (direct ol dir)\<lparr>alist_name := None\<rparr>)\<rparr>;
            both_absent = (alist_name (direct ol' RIP_OFFSET_LIST_IN) = None
                           \<and> alist_name (direct ol' RIP_OFFSET_LIST_OUT) = None)
        in (offset_lists (ripd w') offset = None \<longleftrightarrow> both_absent)
         \<and> (\<not> both_absent \<longrightarrow> offset_lists (ripd w') offset = Some ol')
         \<and> freed (ripd w') =
             freed (ripd w)
             @ (case alist_name (direct ol dir) of None \<Rightarrow> [] | Some a \<Rightarrow> [a])
             @ (if both_absent then [offset] else [])
         \<and> (\<forall>a. alist_name (direct ol dir) = Some a \<longrightarrow> strings (ripd w') a = None)
         \<and> (dir = RIP_OFFSET_LIST_IN \<longrightarrow>
              (both_absent \<longleftrightarrow> alist_name (direct ol RIP_OFFSET_LIST_OUT) = None))
         \<and> (dir = RIP_OFFSET_LIST_OUT \<longrightarrow>
              (both_absent \<longleftrightarrow> alist_name (direct ol RIP_OFFSET_LIST_IN) = None))
         \<and> priv w' = priv w)"
proof (cases "alist_name (direct ol (yang_dnode_get_enum dnode (Some ''./direction'')))")
  case None
  then show ?thesis
    using assms
    by (auto simp add: ripd_instance_offset_list_delete_def Let_def offset_list_del_def
        offset_dir_clear_absent RIP_OFFSET_LIST_IN_def RIP_OFFSET_LIST_OUT_def)
next
  case (Some a)
  then show ?thesis
    using assms
    by (auto simp add: ripd_instance_offset_list_delete_def Let_def offset_list_del_def free_def
        RIP_OFFSET_LIST_IN_def RIP_OFFSET_LIST_OUT_def)
qed

theorem offset_list_delete_shared_record_witness:
  "map_option (\<lambda>(r, w'). (r, offset_lists (ripd w') 0 \<noteq> None, freed (ripd w')))
      (ripd_instance_offset_list_delete ex_helpers NB_EV_APPLY (ex_dnode 7 []) ex_offset_world)
     = Some (NB_OK, True, [1])
   \<and> map_option (\<lambda>(r, w'). (r, offset_lists (ripd w') 0 \<noteq> None, freed (ripd w')))
      (Option.bind
        (ripd_instance_offset_list_delete ex_helpers NB_EV_APPLY (ex_dnode 7 []) ex_offset_world)
        (\<lambda>(r, w'). ripd_instance_offset_list_delete ex_helpers NB_EV_APPLY (ex_dnode_out 7 []) w'))
     = Some (NB_OK, False, [1, 2, 0])"
proof -
  have e: "yang_dnode_get_entry (ex_dnode 7 []) ex_offset_world = Some 0"
    by (simp add: yang_dnode_get_entry_def ex_dnode_def ex_offset_world_def)
  have ol: "offset_lists (ripd ex_offset_world) 0 =
      Some \<lparr>ifname = ''eth0'',
           direct = (\<lambda>k. if k = 0 then \<lparr>alist_name = Some 1, metric = 0\<rparr>
                          else if k = 1 then \<lparr>alist_name = Some 2, metric = 0\<rparr>
                          else \<lparr>alist_name = None, metric = 0\<rparr>)\<rparr>"
    by (simp add: ex_offset_world_def)
  show ?thesis
    using offset_list_delete_shared_record [OF e ol, of ex_helpers]
    by (simp add: ripd_instance_offset_list_delete_def yang_dnode_get_entry_def ex_dnode_def
        ex_dnode_out_def ex_offset_world_def ex_ripd_def free_def offset_list_del_def Let_def
        RIP_OFFSET_LIST_IN_def RIP_OFFSET_LIST_OUT_def)
qed

section \<open>Entry bindings\<close>









section \<open>The life of a distance/source entry\<close>

lemma distance_source_create_fresh:
  assumes "priv w (dn_id dnode) = None"
    and "rip_distance_table (ripd w) (yang_dnode_get_ipv4p dnode (Some ''./prefix'')) = None"
  shows "\<exists>w'.
      ripd_instance_distance_source_create h NB_EV_APPLY dnode resource w
        = Some (NB_OK, resource, w')
      \<and> priv w' = (priv w)(dn_id dnode \<mapsto> brk (ripd w))
      \<and> route_nodes (ripd w') (brk (ripd w))
          = Some \<lparr>rn_p = yang_dnode_get_ipv4p dnode (Some ''./prefix''),
                  info = Some (Suc (brk (ripd w))), lock = 1\<rparr>
      \<and> distances (ripd w') (Suc (brk (ripd w)))
          = Some \<lparr>rd_distance = 0, access_list = None\<rparr>
      \<and> freed (ripd w') = freed (ripd w)
      \<and> brk (ripd w') = Suc (Suc (brk (ripd w)))"
  using assms
  by (simp add: ripd_instance_distance_source_create_def route_node_get_def
      rip_distance_new_def yang_dnode_set_entry_def Let_def)

lemma access_list_modify_apply:
  assumes "yang_dnode_get_entry leaf w = Some rn"
    and "route_nodes (ripd w) rn = Some node"
    and "info node = Some rdistance"
    and "distances (ripd w) rdistance = Some rd"
  shows "\<exists>w'.
      ripd_instance_distance_source_access_list_modify h NB_EV_APPLY leaf resource w
        = Some (NB_OK, resource, w')
      \<and> priv w' = priv w
      \<and> route_nodes (ripd w') = route_nodes (ripd w)
      \<and> rip_distance_table (ripd w') = rip_distance_table (ripd w)
      \<and> distances (ripd w') rdistance = Some (rd\<lparr>access_list := Some (brk (ripd w))\<rparr>)
      \<and> strings (ripd w') (brk (ripd w)) = Some (yang_dnode_get_string leaf None)
      \<and> freed (ripd w')
          = freed (ripd w) @ (case access_list rd of None \<Rightarrow> [] | Some a \<Rightarrow> [a])
      \<and> brk (ripd w') = Suc (brk (ripd w))"
  using assms
  by (cases "access_list rd")
    (simp_all add: ripd_instance_distance_source_access_list_modify_def strdup_def free_def
      Let_def)

lemma distance_source_delete_apply:
  assumes "yang_dnode_get_entry dnode w = Some rn"
    and "route_nodes (ripd w) rn = Some node"
    and "info node = Some rdistance"
    and "distances (ripd w) rdistance = Some rd"
    and "lock node = 1"
  shows "\<exists>w'.
      ripd_instance_distance_source_delete h NB_EV_APPLY dnode w = Some (NB_OK, w')
      \<and> priv w' = priv w
      \<and> route_nodes (ripd w') rn = None
      \<and> rip_distance_table (ripd w') (rn_p node) = None
      \<and> distances (ripd w') rdistance = None
      \<and> (\<forall>a. access_list rd = Some a \<longrightarrow> strings (ripd w') a = None)
      \<and> freed (ripd w')
          = freed (ripd w) @ (case access_list rd of None \<Rightarrow> [] | Some a \<Rightarrow> [a])
              @ [rdistance, rn]"
  using assms
  by (cases "access_list rd")
    (simp_all add: ripd_instance_distance_source_delete_def free_def rip_distance_free_def
      route_unlock_node_def Let_def)

lemma get_entry_self:
  "priv w (dn_id dnode) = Some e \<Longrightarrow> yang_dnode_get_entry dnode w = Some e"
  by (simp add: yang_dnode_get_entry_def)

text \<open>
  C5 as stated fails: after create, modify and delete of the entry (node 1, its leaf node 2)
  the private pointer of node 1 still holds the address of the route node, which the delete
  callback has released.
\<close>

theorem delete_leaves_binding_counterexample:
  "map_option priv
     (distance_source_lifecycle ex_helpers (ex_dnode 1 []) (ex_dnode 2 [1]) \<lparr>fd = 0\<rparr> ex_world)
   = Some [1 \<mapsto> 0]"
  by (simp add: distance_source_lifecycle_def ripd_instance_distance_source_create_def
      ripd_instance_distance_source_access_list_modify_def
      ripd_instance_distance_source_delete_def route_node_get_def rip_distance_new_def
      yang_dnode_set_entry_def yang_dnode_get_entry_def strdup_def free_def
      rip_distance_free_def route_unlock_node_def ex_dnode_def ex_world_def ex_ripd_def Let_def)

text \<open>
  C5, amended.  A distance/source entry whose prefix the table does not hold yet, on a node
  not yet bound, with the access-list leaf as its child.  After the APPLY of create the node
  is bound to the new route node, whose \<open>info\<close> is the new distance record.  The APPLY of
  the access-list modify resolves the leaf to that same route node and stores a copy of the
  name in the record; there is no previous string, and nothing is freed.  (A second modify
  would resolve to the same route node again and free the string the first one stored.)  The
  APPLY of delete frees the string, the distance record and the route node; over the whole
  sequence the string is freed exactly once.  The delete callback does not remove the binding: the node's private pointer still
  holds the address of the released route node.
\<close>

theorem distance_source_lifecycle_steps:
  assumes unbound: "priv w (dn_id dnode) = None"
    and fresh: "rip_distance_table (ripd w) (yang_dnode_get_ipv4p dnode (Some ''./prefix'')) = None"
    and child: "dn_parents leaf = dn_id dnode # dn_parents dnode"
    and leaf: "priv w (dn_id leaf) = None" "dn_id leaf \<noteq> dn_id dnode"
    and heap: "\<forall>a \<in> set (freed (ripd w)). a < brk (ripd w)"
  shows "\<exists>w1 w2 w3.
      ripd_instance_distance_source_create h NB_EV_APPLY dnode resource w
        = Some (NB_OK, resource, w1)
      \<and> priv w1 (dn_id dnode) = Some (brk (ripd w))
      \<and> route_nodes (ripd w1) (brk (ripd w))
          = Some \<lparr>rn_p = yang_dnode_get_ipv4p dnode (Some ''./prefix''),
                  info = Some (Suc (brk (ripd w))), lock = 1\<rparr>
      \<and> distances (ripd w1) (Suc (brk (ripd w)))
          = Some \<lparr>rd_distance = 0, access_list = None\<rparr>
      \<and> yang_dnode_get_entry leaf w1 = Some (brk (ripd w))
      \<and> ripd_instance_distance_source_access_list_modify h NB_EV_APPLY leaf resource w1
        = Some (NB_OK, resource, w2)
      \<and> yang_dnode_get_entry dnode w2 = Some (brk (ripd w))
      \<and> distances (ripd w2) (Suc (brk (ripd w)))
          = Some \<lparr>rd_distance = 0, access_list = Some (Suc (Suc (brk (ripd w))))\<rparr>
      \<and> strings (ripd w2) (Suc (Suc (brk (ripd w)))) = Some (yang_dnode_get_string leaf None)
      \<and> freed (ripd w2) = freed (ripd w)
      \<and> (\<exists>v. ripd_instance_distance_source_access_list_modify h NB_EV_APPLY leaf resource w2
               = Some (NB_OK, resource, v)
             \<and> yang_dnode_get_entry leaf v = Some (brk (ripd w))
             \<and> distances (ripd v) (Suc (brk (ripd w)))
                 = Some \<lparr>rd_distance = 0, access_list = Some (Suc (Suc (Suc (brk (ripd w)))))\<rparr>
             \<and> freed (ripd v) = freed (ripd w) @ [Suc (Suc (brk (ripd w)))])
      \<and> ripd_instance_distance_source_delete h NB_EV_APPLY dnode w2 = Some (NB_OK, w3)
      \<and> distances (ripd w3) (Suc (brk (ripd w))) = None
      \<and> route_nodes (ripd w3) (brk (ripd w)) = None
      \<and> strings (ripd w3) (Suc (Suc (brk (ripd w)))) = None
      \<and> freed (ripd w3)
          = freed (ripd w) @ [Suc (Suc (brk (ripd w))), Suc (brk (ripd w)), brk (ripd w)]
      \<and> count_list (freed (ripd w3)) (Suc (Suc (brk (ripd w)))) = 1
      \<and> priv w3 (dn_id dnode) = Some (brk (ripd w))
      \<and> distance_source_lifecycle h dnode leaf resource w = Some w3"
proof -
  let ?b = "brk (ripd w)"
  obtain w1 where
    c: "ripd_instance_distance_source_create h NB_EV_APPLY dnode resource w
          = Some (NB_OK, resource, w1)"
    and p1: "priv w1 = (priv w)(dn_id dnode \<mapsto> ?b)"
    and n1: "route_nodes (ripd w1) ?b
          = Some \<lparr>rn_p = yang_dnode_get_ipv4p dnode (Some ''./prefix''),
                  info = Some (Suc ?b), lock = 1\<rparr>"
    and d1: "distances (ripd w1) (Suc ?b) = Some \<lparr>rd_distance = 0, access_list = None\<rparr>"
    and f1: "freed (ripd w1) = freed (ripd w)"
    and b1: "brk (ripd w1) = Suc (Suc ?b)"
    using distance_source_create_fresh [OF unbound fresh, of h resource] by blast
  have e1: "yang_dnode_get_entry dnode w1 = Some ?b"
    using p1 by (simp add: get_entry_self)
  have l1: "yang_dnode_get_entry leaf w1 = Some ?b"
    using p1 leaf child by (simp add: yang_dnode_get_entry_def)
  obtain w2 where
    m: "ripd_instance_distance_source_access_list_modify h NB_EV_APPLY leaf resource w1
          = Some (NB_OK, resource, w2)"
    and p2: "priv w2 = priv w1"
    and n2: "route_nodes (ripd w2) = route_nodes (ripd w1)"
    and d2: "distances (ripd w2) (Suc ?b)
          = Some (\<lparr>rd_distance = 0, access_list = None\<rparr>\<lparr>access_list := Some (brk (ripd w1))\<rparr>)"
    and s2: "strings (ripd w2) (brk (ripd w1)) = Some (yang_dnode_get_string leaf None)"
    and f2: "freed (ripd w2)
          = freed (ripd w1)
            @ (case access_list \<lparr>rd_distance = 0, access_list = None\<rparr> of
                 None \<Rightarrow> [] | Some a \<Rightarrow> [a])"
    and b2: "brk (ripd w2) = Suc (brk (ripd w1))"
    using access_list_modify_apply [OF l1 n1 _ d1, of h resource] by auto
  have e2: "yang_dnode_get_entry dnode w2 = Some ?b"
    using p1 p2 by (simp add: get_entry_self)
  have n2': "route_nodes (ripd w2) ?b
          = Some \<lparr>rn_p = yang_dnode_get_ipv4p dnode (Some ''./prefix''),
                  info = Some (Suc ?b), lock = 1\<rparr>"
    using n1 n2 by simp
  have d2': "distances (ripd w2) (Suc ?b)
          = Some \<lparr>rd_distance = 0, access_list = Some (Suc (Suc ?b))\<rparr>"
    using d2 b1 by simp
  have l2: "yang_dnode_get_entry leaf w2 = Some ?b"
    using l1 p2 by (simp add: yang_dnode_get_entry_def)
  have again: "\<exists>v. ripd_instance_distance_source_access_list_modify h NB_EV_APPLY leaf resource w2
               = Some (NB_OK, resource, v)
             \<and> yang_dnode_get_entry leaf v = Some ?b
             \<and> distances (ripd v) (Suc ?b)
                 = Some \<lparr>rd_distance = 0, access_list = Some (Suc (Suc (Suc ?b)))\<rparr>
             \<and> freed (ripd v) = freed (ripd w) @ [Suc (Suc ?b)]"
  proof -
    obtain v where
      "ripd_instance_distance_source_access_list_modify h NB_EV_APPLY leaf resource w2
          = Some (NB_OK, resource, v)"
      and "priv v = priv w2"
      and "distances (ripd v) (Suc ?b)
          = Some (\<lparr>rd_distance = 0, access_list = Some (Suc (Suc ?b))\<rparr>
                   \<lparr>access_list := Some (brk (ripd w2))\<rparr>)"
      and "freed (ripd v)
          = freed (ripd w2)
            @ (case access_list \<lparr>rd_distance = 0, access_list = Some (Suc (Suc ?b))\<rparr> of
                 None \<Rightarrow> [] | Some a \<Rightarrow> [a])"
      using access_list_modify_apply [OF l2 n2' _ d2', of h resource] by auto
    then show ?thesis
      using l2 b2 b1 f2 f1 by (intro exI [of _ v]) (simp add: yang_dnode_get_entry_def)
  qed
  obtain w3 where
    x: "ripd_instance_distance_source_delete h NB_EV_APPLY dnode w2 = Some (NB_OK, w3)"
    and p3: "priv w3 = priv w2"
    and n3: "route_nodes (ripd w3) ?b = None"
    and d3: "distances (ripd w3) (Suc ?b) = None"
    and s3: "strings (ripd w3) (Suc (Suc ?b)) = None"
    and f3: "freed (ripd w3) = freed (ripd w2) @ [Suc (Suc ?b), Suc ?b, ?b]"
    using distance_source_delete_apply [OF e2 n2' _ d2', of h] by auto
  have cnt: "count_list (freed (ripd w3)) (Suc (Suc ?b)) = 1"
  proof -
    have "Suc (Suc ?b) \<notin> set (freed (ripd w))"
      using heap by auto
    then have "count_list (freed (ripd w)) (Suc (Suc ?b)) = 0"
      by (simp add: count_list_0_iff)
    then show ?thesis
      using f3 f2 f1 by simp
  qed
  have life: "distance_source_lifecycle h dnode leaf resource w = Some w3"
    using c m x by (simp add: distance_source_lifecycle_def)
  show ?thesis
    using c p1 n1 d1 l1 m e2 d2' s2 b1 f2 f1 again x d3 n3 s3 f3 cnt p3 p2 life
    by (intro exI [of _ w1] exI [of _ w2] exI [of _ w3]) simp
qed

theorem distance_source_lifecycle_steps_witness:
  "map_option (\<lambda>w. (priv w 1, freed (ripd w), distances (ripd w) 1, strings (ripd w) 2,
        count_list (freed (ripd w)) 2))
     (distance_source_lifecycle ex_helpers (ex_dnode 1 []) (ex_dnode 2 [1]) \<lparr>fd = 0\<rparr> ex_world)
   = Some (Some 0, [2, 1, 0], None, None, 1)"
proof -
  have a: "priv ex_world (dn_id (ex_dnode 1 [])) = None"
    by (simp add: ex_world_def)
  have b: "rip_distance_table (ripd ex_world)
      (yang_dnode_get_ipv4p (ex_dnode 1 []) (Some ''./prefix'')) = None"
    by (simp add: ex_world_def ex_ripd_def)
  have c: "dn_parents (ex_dnode 2 [1]) = dn_id (ex_dnode 1 []) # dn_parents (ex_dnode 1 [])"
    by (simp add: ex_dnode_def)
  have d: "priv ex_world (dn_id (ex_dnode 2 [1])) = None"
    by (simp add: ex_world_def)
  have e: "dn_id (ex_dnode 2 [1]) \<noteq> dn_id (ex_dnode 1 [])"
    by (simp add: ex_dnode_def)
  have f: "\<forall>a \<in> set (freed (ripd ex_world)). a < brk (ripd ex_world)"
    by (simp add: ex_world_def ex_ripd_def)
  have g: "brk (ripd ex_world) = 0"
    by (simp add: ex_world_def ex_ripd_def)
  have k: "freed (ripd ex_world) = []"
    by (simp add: ex_world_def ex_ripd_def)
  show ?thesis
    using distance_source_lifecycle_steps [OF a b c d e f, of ex_helpers "\<lparr>fd = 0\<rparr>"]
    by (auto simp add: g k ex_dnode_def numeral_2_eq_2)
qed

end
